theory Spec2Isabelle
  imports Complex_Main "HOL-Library.Log_Nat"
begin

section \<open>JavaScript numbers\<close>

text \<open>
  Every number of the program is an IEEE 754 binary64 value. A finite double is carried
  as the rational it denotes; the two infinities and NaN are separate constructors. The
  sign of zero is not represented: the modelled code never divides by a value that can
  be zero and compares zeros only with \<open>===\<close>, \<open><\<close>, \<open>>\<close> and truthiness, all of
  which treat \<open>-0\<close> as \<open>0\<close>.
\<close>

datatype jsnum = Fin rat | PInf | NInf | NaN

text \<open>\<open>ilog2 a\<close> is \<open>\<lfloor>log\<^sub>2 a\<rfloor>\<close> for a positive rational, computed from bit lengths.\<close>

definition pow2 :: "int \<Rightarrow> rat" where
  "pow2 e = (if 0 \<le> e then 2 ^ nat e else 1 / 2 ^ nat (- e))"

definition ilog2 :: "rat \<Rightarrow> int" where
  "ilog2 a = (let (p, q) = quotient_of a; k = bitlen p - bitlen q
              in if pow2 k \<le> a then k else k - 1)"

text \<open>Rounding a rational to the nearest integer, ties to the even one.\<close>

definition round_half_even :: "rat \<Rightarrow> int" where
  "round_half_even x =
     (let n = \<lfloor>x\<rfloor>; r = x - of_int n
      in if r < 1 / 2 then n else if 1 / 2 < r then n + 1
         else if even n then n else n + 1)"

text \<open>
  \<open>rnd64\<close> rounds an exact rational result to binary64, round to nearest, ties to
  even: 53 significant bits, least exponent \<open>-1074\<close> of the last place (gradual
  underflow), overflow to an infinity once the rounded magnitude reaches \<open>2^1024\<close>.
\<close>

definition ulp_exp :: "rat \<Rightarrow> int" where
  "ulp_exp a = max (ilog2 a) (- 1022) - 52"

definition round_mag :: "rat \<Rightarrow> rat" where
  "round_mag a = of_int (round_half_even (a / pow2 (ulp_exp a))) * pow2 (ulp_exp a)"

definition rnd64 :: "rat \<Rightarrow> jsnum" where
  "rnd64 q =
     (if q = 0 then Fin 0
      else let r = round_mag \<bar>q\<bar>
           in if pow2 1024 \<le> r then (if 0 < q then PInf else NInf)
              else Fin (if 0 < q then r else - r))"

text \<open>A numeric literal of the source denotes the double nearest to its decimal value.\<close>

abbreviation lit :: "rat \<Rightarrow> jsnum" where
  "lit q \<equiv> rnd64 q"

fun jneg :: "jsnum \<Rightarrow> jsnum" where
  "jneg (Fin a) = Fin (- a)"
| "jneg PInf = NInf"
| "jneg NInf = PInf"
| "jneg NaN = NaN"

fun jadd :: "jsnum \<Rightarrow> jsnum \<Rightarrow> jsnum" where
  "jadd NaN _ = NaN"
| "jadd _ NaN = NaN"
| "jadd (Fin a) (Fin b) = rnd64 (a + b)"
| "jadd PInf NInf = NaN"
| "jadd NInf PInf = NaN"
| "jadd PInf _ = PInf"
| "jadd NInf _ = NInf"
| "jadd _ PInf = PInf"
| "jadd _ NInf = NInf"

definition jsub :: "jsnum \<Rightarrow> jsnum \<Rightarrow> jsnum" where
  "jsub a b = jadd a (jneg b)"

text \<open>The sign of a number that is not NaN: \<open>-1\<close>, \<open>0\<close> or \<open>1\<close>.\<close>

fun jsgn :: "jsnum \<Rightarrow> int" where
  "jsgn (Fin a) = (if a < 0 then - 1 else if a = 0 then 0 else 1)"
| "jsgn PInf = 1"
| "jsgn NInf = - 1"
| "jsgn NaN = 0"

fun jmul :: "jsnum \<Rightarrow> jsnum \<Rightarrow> jsnum" where
  "jmul NaN _ = NaN"
| "jmul _ NaN = NaN"
| "jmul (Fin a) (Fin b) = rnd64 (a * b)"
| "jmul x y =
     (let s = jsgn x * jsgn y
      in if s = 0 then NaN else if 0 < s then PInf else NInf)"

fun jdiv :: "jsnum \<Rightarrow> jsnum \<Rightarrow> jsnum" where
  "jdiv NaN _ = NaN"
| "jdiv _ NaN = NaN"
| "jdiv (Fin a) (Fin b) =
     (if b = 0 then (if a = 0 then NaN else if 0 < a then PInf else NInf)
      else rnd64 (a / b))"
| "jdiv (Fin a) _ = Fin 0"
| "jdiv x (Fin b) = (if b < 0 then jneg x else x)"
| "jdiv _ _ = NaN"

text \<open>The comparisons \<open><\<close> and \<open>>\<close>: false as soon as an operand is NaN.\<close>

fun jlt :: "jsnum \<Rightarrow> jsnum \<Rightarrow> bool" where
  "jlt NaN _ = False"
| "jlt _ NaN = False"
| "jlt (Fin a) (Fin b) = (a < b)"
| "jlt PInf _ = False"
| "jlt _ PInf = True"
| "jlt NInf _ = True"
| "jlt _ NInf = False"

definition jgt :: "jsnum \<Rightarrow> jsnum \<Rightarrow> bool" where
  "jgt a b = jlt b a"

text \<open>\<open>>=\<close> is not the negation of \<open><\<close>: it too is false on NaN.\<close>

definition jge :: "jsnum \<Rightarrow> jsnum \<Rightarrow> bool" where
  "jge a b = (a \<noteq> NaN \<and> b \<noteq> NaN \<and> \<not> jlt a b)"

text \<open>\<open>===\<close> on numbers: NaN is equal to nothing, itself included.\<close>

definition jeq :: "jsnum \<Rightarrow> jsnum \<Rightarrow> bool" where
  "jeq a b = (a \<noteq> NaN \<and> a = b)"

text \<open>\<open>Math.max\<close> of two numbers: NaN when either is.\<close>

definition Math_max :: "jsnum \<Rightarrow> jsnum \<Rightarrow> jsnum" where
  "Math_max a b = (if a = NaN \<or> b = NaN then NaN else if jlt a b then b else a)"

fun Math_abs :: "jsnum \<Rightarrow> jsnum" where
  "Math_abs (Fin a) = Fin \<bar>a\<bar>"
| "Math_abs NaN = NaN"
| "Math_abs _ = PInf"

text \<open>\<open>Math.round\<close>: the integer nearest to the argument, halves towards \<open>+\<infinity>\<close>.\<close>

fun Math_round :: "jsnum \<Rightarrow> jsnum" where
  "Math_round (Fin a) = Fin (of_int \<lfloor>a + 1 / 2\<rfloor>)"
| "Math_round x = x"

text \<open>Truthiness of a number: every number but \<open>0\<close> and NaN.\<close>

fun truthy_num :: "jsnum \<Rightarrow> bool" where
  "truthy_num (Fin a) = (a \<noteq> 0)"
| "truthy_num NaN = False"
| "truthy_num _ = True"


text \<open>
  The values other than numbers that reach an arithmetic operator or a truth test in the
  modelled code: \<open>undefined\<close> (a missing property) and objects (functions included).
\<close>

datatype jsval = Undefined | Num jsnum | Object

fun truthy :: "jsval \<Rightarrow> bool" where
  "truthy Undefined = False"
| "truthy (Num n) = truthy_num n"
| "truthy Object = True"

text \<open>
  \<open>ToNumber\<close>, applied by the arithmetic operators: \<open>undefined\<close> becomes NaN, and so
  does a function or a plain object (its primitive value is a string that is no numeral).
\<close>

fun ToNumber :: "jsval \<Rightarrow> jsnum" where
  "ToNumber Undefined = NaN"
| "ToNumber (Num n) = n"
| "ToNumber Object = NaN"

text \<open>\<open>a || b\<close>: the left operand when it is truthy, else the right one.\<close>

definition or_else :: "jsval \<Rightarrow> jsval \<Rightarrow> jsval" where
  "or_else a b = (if truthy a then a else b)"

text \<open>A property holding a number, or missing: \<open>None\<close> reads as \<open>undefined\<close>.\<close>

fun field :: "jsnum option \<Rightarrow> jsval" where
  "field None = Undefined"
| "field (Some n) = Num n"

text \<open>
  \<open>Math.sin\<close>, \<open>Math.cos\<close>, \<open>Math.sqrt\<close> and \<open>Math.atan2\<close> are approximations that
  the language leaves to the implementation; their values on finite arguments are
  parameters of the model. What the language fixes is modelled: a NaN argument gives
  NaN, and so does an infinite argument of \<open>sin\<close> and \<open>cos\<close> and a negative one of
  \<open>sqrt\<close>.
\<close>

record mathlib =
  m_sin :: "rat \<Rightarrow> jsnum"
  m_cos :: "rat \<Rightarrow> jsnum"
  m_sqrt :: "rat \<Rightarrow> jsnum"
  m_atan2 :: "jsnum \<Rightarrow> jsnum \<Rightarrow> jsnum"

fun Math_sin :: "mathlib \<Rightarrow> jsnum \<Rightarrow> jsnum" where
  "Math_sin ml (Fin a) = m_sin ml a"
| "Math_sin ml _ = NaN"

fun Math_cos :: "mathlib \<Rightarrow> jsnum \<Rightarrow> jsnum" where
  "Math_cos ml (Fin a) = m_cos ml a"
| "Math_cos ml _ = NaN"

fun Math_sqrt :: "mathlib \<Rightarrow> jsnum \<Rightarrow> jsnum" where
  "Math_sqrt ml (Fin a) = (if a < 0 then NaN else m_sqrt ml a)"
| "Math_sqrt ml PInf = PInf"
| "Math_sqrt ml _ = NaN"

definition Math_atan2 :: "mathlib \<Rightarrow> jsnum \<Rightarrow> jsnum \<Rightarrow> jsnum" where
  "Math_atan2 ml y x = (if y = NaN \<or> x = NaN then NaN else m_atan2 ml y x)"

text \<open>\<open>Math.PI\<close> is the double \<open>3.141592653589793\<close>.\<close>

definition Math_PI :: jsnum where
  "Math_PI = Fin (884279719003555 / 2 ^ 48)"


section \<open>Fare engine (\<open>index.js\<close>)\<close>

definition DIRECT_DELIVERY_BASE_FARE :: jsnum where
  "DIRECT_DELIVERY_BASE_FARE = Fin 3000"

definition COLLECTION_POINT_BASE_FARE :: jsnum where
  "COLLECTION_POINT_BASE_FARE = Fin 2000"

definition PER_KM_RATE :: jsnum where
  "PER_KM_RATE = Fin 800"

definition PER_KG_RATE :: jsnum where
  "PER_KG_RATE = Fin 500"

definition FRAGILE_FEE :: jsnum where
  "FRAGILE_FEE = Fin 1500"

definition MINIMUM_FARE :: jsnum where
  "MINIMUM_FARE = Fin 5000"

definition COLLECTION_POINT_DISCOUNT :: jsnum where
  "COLLECTION_POINT_DISCOUNT = lit (9 / 10)"

definition COMMISSION_RATE :: jsnum where
  "COMMISSION_RATE = lit (15 / 100)"

text \<open>
  \<open>SIZE_MULTIPLIERS\<close> is an object literal, and \<open>SIZE_MULTIPLIERS[sizeCategory]\<close> a
  property access on it: a key that is not one of its four own properties is looked up
  in \<open>Object.prototype\<close>, whose members are functions (and, for \<open>__proto__\<close>, an
  object), before the access yields \<open>undefined\<close>.
\<close>

definition Object_prototype_keys :: "string list" where
  "Object_prototype_keys =
     [''constructor'', ''hasOwnProperty'', ''isPrototypeOf'', ''propertyIsEnumerable'',
      ''toLocaleString'', ''toString'', ''valueOf'', ''__proto__'',
      ''__defineGetter__'', ''__defineSetter__'', ''__lookupGetter__'', ''__lookupSetter__'']"

definition SIZE_MULTIPLIERS :: "string \<Rightarrow> jsval" where
  "SIZE_MULTIPLIERS key =
     (if key = ''small'' then Num (Fin 1)
      else if key = ''medium'' then Num (lit (12 / 10))
      else if key = ''large'' then Num (lit (15 / 10))
      else if key = ''xlarge'' then Num (Fin 2)
      else if key \<in> set Object_prototype_keys then Object
      else Undefined)"

record fare =
  totalFare :: jsnum
  commission :: jsnum
  driverPayout :: jsnum

definition calculateDirectDeliveryFare :: "jsnum \<Rightarrow> jsnum \<Rightarrow> string \<Rightarrow> bool \<Rightarrow> fare" where
  "calculateDirectDeliveryFare distance w sizeCategory fragile =
     (let sizeMultiplier = or_else (SIZE_MULTIPLIERS sizeCategory) (Num (Fin 1));
          fragileFee = (if fragile then FRAGILE_FEE else Fin 0);
          totalFare0 = jadd (jadd (jadd DIRECT_DELIVERY_BASE_FARE (jmul distance PER_KM_RATE))
                                  (jmul (jmul w PER_KG_RATE) (ToNumber sizeMultiplier)))
                            fragileFee;
          total = Math_max totalFare0 MINIMUM_FARE;
          comm = jmul total COMMISSION_RATE;
          payout = jsub total comm
      in \<lparr>totalFare = total, commission = comm, driverPayout = payout\<rparr>)"

definition calculateCollectionPointFare :: "jsnum \<Rightarrow> jsnum \<Rightarrow> string \<Rightarrow> bool \<Rightarrow> fare" where
  "calculateCollectionPointFare distance w sizeCategory fragile =
     (let sizeMultiplier = or_else (SIZE_MULTIPLIERS sizeCategory) (Num (Fin 1));
          fragileFee = (if fragile then FRAGILE_FEE else Fin 0);
          baseCalculation =
            jadd (jadd (jadd COLLECTION_POINT_BASE_FARE (jmul distance PER_KM_RATE))
                       (jmul (jmul w PER_KG_RATE) (ToNumber sizeMultiplier)))
                 fragileFee;
          totalFare0 = jmul baseCalculation COLLECTION_POINT_DISCOUNT;
          total = jmul (Math_round (jdiv totalFare0 (Fin 100))) (Fin 100);
          comm = jmul total COMMISSION_RATE;
          payout = jsub total comm
      in \<lparr>totalFare = total, commission = comm, driverPayout = payout\<rparr>)"

text \<open>
  The additive formula that both fare functions evaluate, over their respective base
  fare, named here for the statements below.
\<close>

definition additive_formula :: "jsnum \<Rightarrow> jsnum \<Rightarrow> jsnum \<Rightarrow> string \<Rightarrow> bool \<Rightarrow> jsnum" where
  "additive_formula base distance w sizeCategory fragile =
     jadd (jadd (jadd base (jmul distance PER_KM_RATE))
                (jmul (jmul w PER_KG_RATE)
                   (ToNumber (or_else (SIZE_MULTIPLIERS sizeCategory) (Num (Fin 1))))))
          (if fragile then FRAGILE_FEE else Fin 0)"

text \<open>
  The inputs the fare functions are meant for: a finite distance and weight, neither
  negative nor above \<open>10\<^sup>6\<close> (km, kg), and a size category of the table.
\<close>

definition valid_fare_input :: "jsnum \<Rightarrow> jsnum \<Rightarrow> string \<Rightarrow> bool" where
  "valid_fare_input distance w sizeCategory =
     (case (distance, w) of
        (Fin d, Fin x) \<Rightarrow>
          0 \<le> d \<and> d \<le> 1000000 \<and> 0 \<le> x \<and> x \<le> 1000000
          \<and> sizeCategory \<in> set [''small'', ''medium'', ''large'', ''xlarge'']
      | _ \<Rightarrow> False)"

text \<open>
  A location as a document stores it: \<open>lat\<close> and \<open>lng\<close>, either of which may be
  missing.
\<close>

record point =
  lat :: "jsnum option"
  lng :: "jsnum option"

definition getDistance :: "mathlib \<Rightarrow> point \<Rightarrow> point \<Rightarrow> jsnum" where
  "getDistance ml start finish =
     (let R = Fin 6371;
          slat = ToNumber (field (lat start)); slng = ToNumber (field (lng start));
          elat = ToNumber (field (lat finish)); elng = ToNumber (field (lng finish));
          dLat = jdiv (jmul (jsub elat slat) Math_PI) (Fin 180);
          dLng = jdiv (jmul (jsub elng slng) Math_PI) (Fin 180);
          a = jadd (jmul (Math_sin ml (jdiv dLat (Fin 2))) (Math_sin ml (jdiv dLat (Fin 2))))
                   (jmul (jmul (jmul (Math_cos ml (jdiv (jmul slat Math_PI) (Fin 180)))
                                     (Math_cos ml (jdiv (jmul elat Math_PI) (Fin 180))))
                               (Math_sin ml (jdiv dLng (Fin 2))))
                         (Math_sin ml (jdiv dLng (Fin 2))));
          c = jmul (Fin 2) (Math_atan2 ml (Math_sqrt ml a) (Math_sqrt ml (jsub (Fin 1) a)))
      in jmul R c)"

text \<open>The hardcoded collection points: id, name, latitude, longitude.\<close>

definition collectionPoints :: "(string \<times> string \<times> jsnum \<times> jsnum) list" where
  "collectionPoints =
     [(''cp1'', ''Kampala Central - Main Office'', lit (3150 / 10000), lit (325822 / 10000)),
      (''cp2'', ''Entebbe Road - Kitooro'', lit (536 / 10000), lit (324632 / 10000)),
      (''cp3'', ''Jinja Road - Mukono'', lit (3556 / 10000), lit (327570 / 10000)),
      (''cp4'', ''Gulu Highway - Luwero'', lit (8333 / 10000), lit (324833 / 10000))]"

text \<open>
  The booking document as the trigger receives it: the client writes it, so every part
  may be missing. \<open>packageDetails\<close> and \<open>paymentDetails\<close> are dereferenced
  unconditionally, \<open>pickup\<close> and \<open>dropoff\<close> unconditionally on the collection-point
  path; reading a property of a missing object throws a \<open>TypeError\<close>.
\<close>

record packageDetails =
  weight :: jsnum
  size :: string
  isFragile :: bool

record paymentDetails =
  estimatedFare :: "jsnum option"

record bookingData =
  deliveryType :: string
  packageDetails :: "packageDetails option"
  pickup :: "point option"
  dropoff :: "point option"
  paymentDetails :: "paymentDetails option"

datatype log = Info string | Warn string | Error string

text \<open>The fields that \<open>snap.ref.update\<close> writes.\<close>

record fare_update =
  u_estimatedFare :: jsnum
  u_commission :: jsnum
  u_driverPayout :: jsnum
  u_distance :: jsnum
  u_lastUpdated :: int

text \<open>
  What one run of the trigger does to the document: nothing (it returned early), the
  update, or nothing because it threw a \<open>TypeError\<close> on a missing object.
\<close>

datatype outcome = NoWrite | Write fare_update | TypeError

text \<open>\<open>!x\<close> on a coordinate that may be missing.\<close>

definition falsy :: "jsnum option \<Rightarrow> bool" where
  "falsy x = (\<not> truthy (field x))"

text \<open>
  \<open>collectionPoints.find(p => p.lat === v)\<close>: the first point whose latitude is
  strictly equal to \<open>v\<close>; \<open>undefined\<close> is equal to no number.
\<close>

definition find_point :: "jsnum option \<Rightarrow> (string \<times> string \<times> jsnum \<times> jsnum) option" where
  "find_point v =
     (case v of
        None \<Rightarrow> None
      | Some x \<Rightarrow> List.find (\<lambda>p. jeq (fst (snd (snd p))) x) collectionPoints)"

text \<open>
  The first half of the trigger (the extraction of the package details and the \<open>if\<close>
  chain on the delivery type): the fare details and the distance, or the early exit with
  what was logged.
\<close>

definition fare_details :: "mathlib \<Rightarrow> bookingData \<Rightarrow> (log list \<times> outcome) + (fare \<times> jsnum)" where
  "fare_details ml bookingData =
     (case packageDetails bookingData of
        None \<Rightarrow> Inl ([], TypeError)
      | Some package \<Rightarrow>
     (let w = weight package;
          sizeCategory = size package;
          fragile = isFragile package
      in if deliveryType bookingData = ''direct'' then
           (case (pickup bookingData, dropoff bookingData) of
              (Some pickupPoint, Some dropoffPoint) \<Rightarrow>
                if falsy (lat pickupPoint) \<or> falsy (lat dropoffPoint)
                then Inl ([Error ''Invalid location data for direct delivery.''], NoWrite)
                else let distance = getDistance ml pickupPoint dropoffPoint
                     in Inr (calculateDirectDeliveryFare distance w sizeCategory fragile,
                             distance)
            | _ \<Rightarrow> Inl ([Error ''Invalid location data for direct delivery.''], NoWrite))
         else if deliveryType bookingData = ''collection_point'' then
           (case (pickup bookingData, dropoff bookingData) of
              (Some pickupPoint, Some dropoffPoint) \<Rightarrow>
                (case (find_point (lat pickupPoint), find_point (lat dropoffPoint)) of
                   (Some startPoint, Some endPoint) \<Rightarrow>
                     let start = \<lparr>lat = Some (fst (snd (snd startPoint))),
                                  lng = Some (snd (snd (snd startPoint)))\<rparr>;
                         finish = \<lparr>lat = Some (fst (snd (snd endPoint))),
                                   lng = Some (snd (snd (snd endPoint)))\<rparr>;
                         distance = getDistance ml start finish
                     in Inr (calculateCollectionPointFare distance w sizeCategory fragile,
                             distance)
                 | _ \<Rightarrow> Inl ([Error ''Invalid collection point data.''], NoWrite))
            | _ \<Rightarrow> Inl ([], TypeError))
         else Inl ([Error ''Invalid delivery type''], NoWrite)))"

text \<open>
  The whole trigger, \<open>now\<close> being the server timestamp. The fare details are an object
  whenever the second half is reached, so its \<open>else\<close> branch is dead code. The second
  half reads \<open>bookingData.paymentDetails.estimatedFare\<close> first: without a
  \<open>paymentDetails\<close> object that throws, after the fare was computed and before anything
  is written.
\<close>

definition validateAndFinalizeBooking :: "mathlib \<Rightarrow> int \<Rightarrow> bookingData \<Rightarrow> log list \<times> outcome" where
  "validateAndFinalizeBooking ml now bookingData =
     (case fare_details ml bookingData of
        Inl (logs, out) \<Rightarrow> (Info ''Processing new booking'' # logs, out)
      | Inr (calculatedFareDetails, distance) \<Rightarrow>
          (case paymentDetails bookingData of
             None \<Rightarrow> ([Info ''Processing new booking''], TypeError)
           | Some payment \<Rightarrow>
          let userSubmittedFare = ToNumber (field (estimatedFare payment));
              fareDifference = Math_abs (jsub (totalFare calculatedFareDetails) userSubmittedFare)
          in (Info ''Processing new booking''
                # (if jgt fareDifference (Fin 1) then [Warn ''Fare mismatch''] else [])
                @ [Info ''Booking successfully validated and finalized''],
              Write \<lparr>u_estimatedFare = totalFare calculatedFareDetails,
                     u_commission = commission calculatedFareDetails,
                     u_driverPayout = driverPayout calculatedFareDetails,
                     u_distance = distance,
                     u_lastUpdated = now\<rparr>)))"
section \<open>Driver assignment (\<open>assignDriverToBooking\<close>, \<open>calculateDriverScores\<close>)\<close>

text \<open>
  The documents of the \<open>drivers\<close> and \<open>bookings\<close> collections, with the fields the
  assignment function reads or writes. The \<open>drivers\<close> collection is an association list
  of document id and document data, in the order in which a query returns its documents;
  \<open>bookings\<close> is a map from document id to document. A driver document may carry an
  \<open>id\<close> field of its own among its data (the schema of the collection lists one):
  that is \<open>id_field\<close>, and nothing makes it equal to the document id.
\<close>

record geopoint =
  latitude :: jsnum
  longitude :: jsnum

record parcel =
  parcel_type :: string
  weightKg :: jsnum
  parcel_isFragile :: bool

record driver =
  id_field :: "string option"
  name :: string
  vehicleType :: string
  rating :: jsnum
  status :: string
  isActive :: bool
  currentLocation :: point
  workingHours :: "(string \<times> string \<times> string) list"
  completedDeliveries :: jsnum
  activeDeliveries :: jsnum
  currentBookingId :: "string option"

record booking =
  bstatus :: string
  pickupLocation :: "point option"
  dropoffLocation :: "point option"
  parcelDetails :: parcel
  driverId :: "string option"
  driverName :: "string option"
  assignmentTimestamp :: "int option"

record store =
  drivers :: "(string \<times> driver) list"
  bookings :: "string \<rightharpoonup> booking"

text \<open>
  The five sub-score helpers are called by \<open>calculateDriverScores\<close> but defined nowhere
  in the repository: they are parameters of the model.
\<close>

record scorers =
  calculateDistanceScore :: "point \<Rightarrow> geopoint \<Rightarrow> jsnum"
  calculateWorkloadScore :: "jsnum \<Rightarrow> jsnum \<Rightarrow> jsnum"
  calculateRatingScore :: "jsnum \<Rightarrow> jsnum"
  calculateVehicleScore :: "string \<Rightarrow> parcel \<Rightarrow> jsnum"
  calculateAvailabilityScore :: "(string \<times> string \<times> string) list \<Rightarrow> jsnum"

record scored =
  s_driverId :: string
  s_driverName :: string
  totalScore :: jsnum
  distanceScore :: jsnum
  workloadScore :: jsnum
  ratingScore :: jsnum
  vehicleScore :: jsnum
  availabilityScore :: jsnum

text \<open>
  \<open>new admin.firestore.GeoPoint(latitude, longitude)\<close> validates its arguments and
  throws unless the latitude is a number in \<open>[-90, 90]\<close> and the longitude one in
  \<open>[-180, 180]\<close>; \<open>None\<close> is the thrown error.
\<close>

definition GeoPoint :: "jsnum \<Rightarrow> jsnum \<Rightarrow> geopoint option" where
  "GeoPoint la lo =
     (if jge la (Fin (- 90)) \<and> jge (Fin 90) la \<and> jge lo (Fin (- 180)) \<and> jge (Fin 180) lo
      then Some \<lparr>latitude = la, longitude = lo\<rparr> else None)"

text \<open>\<open>parseFloat\<close> of a stored coordinate: the number itself, NaN when it is missing.\<close>

definition parseFloat :: "jsnum option \<Rightarrow> jsnum" where
  "parseFloat v = ToNumber (field v)"

text \<open>
  The objects handed to \<open>calculateDriverScores\<close> are built from the query snapshot as
  \<open>{id: doc.id, ...doc.data()}\<close>: the spread comes second, so an \<open>id\<close> field stored in
  the document replaces the document id. The pair is the \<open>id\<close> of the object with the
  rest of its fields.
\<close>

definition doc_with_id :: "string \<times> driver \<Rightarrow> string \<times> driver" where
  "doc_with_id doc = (case id_field (snd doc) of None \<Rightarrow> fst doc | Some i \<Rightarrow> i, snd doc)"

text \<open>The scores of one driver object; \<open>driverId\<close> is the \<open>id\<close> of the object.\<close>

definition score_driver :: "scorers \<Rightarrow> geopoint \<Rightarrow> booking \<Rightarrow> string \<times> driver \<Rightarrow> scored" where
  "score_driver sc pickupGeoPoint b d =
     (let distanceScore = calculateDistanceScore sc (currentLocation (snd d)) pickupGeoPoint;
          workloadScore = calculateWorkloadScore sc (completedDeliveries (snd d))
                            (activeDeliveries (snd d));
          ratingScore = calculateRatingScore sc (rating (snd d));
          vehicleScore = calculateVehicleScore sc (vehicleType (snd d)) (parcelDetails b);
          availabilityScore = calculateAvailabilityScore sc (workingHours (snd d));
          totalScore =
            jadd (jadd (jadd (jadd (jmul distanceScore (lit (4 / 10)))
                                   (jmul workloadScore (lit (2 / 10))))
                             (jmul ratingScore (lit (15 / 100))))
                       (jmul vehicleScore (lit (15 / 100))))
                 (jmul availabilityScore (lit (1 / 10)))
      in \<lparr>s_driverId = fst d, s_driverName = name (snd d), totalScore = totalScore,
          distanceScore = distanceScore, workloadScore = workloadScore,
          ratingScore = ratingScore, vehicleScore = vehicleScore,
          availabilityScore = availabilityScore\<rparr>)"

text \<open>
  \<open>Array.prototype.sort\<close> with a comparator is a stable sort: \<open>a\<close> stays before \<open>b\<close>
  unless the comparator's result on \<open>(a, b)\<close> is positive. Insertion from the right is
  that sort for a comparator that orders the list consistently, which the difference of
  two totals does when all totals are finite. When a difference of two totals is NaN
  (a NaN total, two infinite totals of one sign) the comparator is no longer consistent
  and the language leaves the order to the engine: there \<open>array_sort\<close> still returns a permutation of its input, but
  its order need not be the engine's, and nothing below that depends on the order is
  stated for such totals.
\<close>

fun insert_sorted :: "('a \<Rightarrow> 'a \<Rightarrow> jsnum) \<Rightarrow> 'a \<Rightarrow> 'a list \<Rightarrow> 'a list" where
  "insert_sorted cmp x [] = [x]"
| "insert_sorted cmp x (y # ys) =
     (if jgt (cmp x y) (Fin 0) then y # insert_sorted cmp x ys else x # y # ys)"

definition array_sort :: "('a \<Rightarrow> 'a \<Rightarrow> jsnum) \<Rightarrow> 'a list \<Rightarrow> 'a list" where
  "array_sort cmp xs = foldr (insert_sorted cmp) xs []"

definition calculateDriverScores :: "scorers \<Rightarrow> (string \<times> driver) list \<Rightarrow> booking \<Rightarrow> scored list option" where
  "calculateDriverScores sc ds b =
     (case pickupLocation b of
        None \<Rightarrow> None
      | Some pl \<Rightarrow>
          (case GeoPoint (parseFloat (lat pl)) (parseFloat (lng pl)) of
             None \<Rightarrow> None
           | Some pickupGeoPoint \<Rightarrow>
               Some (array_sort (\<lambda>a b. jsub (totalScore b) (totalScore a))
                       (map (score_driver sc pickupGeoPoint b) ds))))"

text \<open>
  The function awaits three operations on the shared store: the query of the available
  drivers, the update of the booking and the update of the driver. Between two of them
  another invocation may run, so each is one step of the handler; \<open>pc\<close> is the point
  the invocation has reached, with the selected driver it carries in a local variable.
\<close>

datatype pc = Start | Selected scored | BookingWritten scored | Finished

record handler =
  h_bookingId :: string
  h_bookingData :: booking
  h_now :: int
  h_pc :: pc
  h_logs :: "log list"

definition available_drivers :: "store \<Rightarrow> (string \<times> driver) list" where
  "available_drivers st =
     filter (\<lambda>d. status (snd d) = ''available'' \<and> isActive (snd d)) (drivers st)"

definition update_booking :: "string \<Rightarrow> (booking \<Rightarrow> booking) \<Rightarrow> store \<Rightarrow> store option" where
  "update_booking bid f st =
     (case bookings st bid of
        None \<Rightarrow> None
      | Some b \<Rightarrow> Some (st\<lparr>bookings := (bookings st)(bid \<mapsto> f b)\<rparr>))"

definition update_driver :: "string \<Rightarrow> (driver \<Rightarrow> driver) \<Rightarrow> store \<Rightarrow> store option" where
  "update_driver did f st =
     (if did \<in> fst ` set (drivers st)
      then Some (st\<lparr>drivers := map (\<lambda>d. if fst d = did then (fst d, f (snd d)) else d) (drivers st)\<rparr>)
      else None)"

text \<open>
  One step of an invocation. The driver is updated at the path \<open>drivers/\<close> followed by
  the \<open>driverId\<close> of the selected object, which is a document of the collection only
  when the collection has a document of that id. An update of a document that does not
  exist throws, as do
  \<open>calculateDriverScores\<close> on a bad pickup location and the field access on
  \<open>driverScores[0]\<close> were the list empty; the \<open>catch\<close> block logs the error and the
  invocation ends, whatever it has written so far. The notification sent after the two
  writes (\<open>sendDriverNotification\<close>, not in the repository) touches neither collection
  and is left out.
\<close>

definition handler_step :: "scorers \<Rightarrow> store \<Rightarrow> handler \<Rightarrow> store \<times> handler" where
  "handler_step sc st h =
     (case h_pc h of
        Start \<Rightarrow>
          (if bstatus (h_bookingData h) \<noteq> ''Pending Driver Assignment''
           then (st, h\<lparr>h_pc := Finished\<rparr>)
           else let snapshot = available_drivers st
                in if snapshot = []
                   then (st, h\<lparr>h_pc := Finished,
                                h_logs := h_logs h @ [Info ''No available drivers found'']\<rparr>)
                   else (case calculateDriverScores sc (map doc_with_id snapshot)
                                 (h_bookingData h) of
                           None \<Rightarrow> (st, h\<lparr>h_pc := Finished,
                                 h_logs := h_logs h @ [Error ''Error assigning driver to booking'']\<rparr>)
                         | Some [] \<Rightarrow> (st, h\<lparr>h_pc := Finished,
                                 h_logs := h_logs h @ [Error ''Error assigning driver to booking'']\<rparr>)
                         | Some (selectedDriver # _) \<Rightarrow> (st, h\<lparr>h_pc := Selected selectedDriver\<rparr>)))
      | Selected selectedDriver \<Rightarrow>
          (case update_booking (h_bookingId h)
                  (\<lambda>b. b\<lparr>driverId := Some (s_driverId selectedDriver),
                          driverName := Some (s_driverName selectedDriver),
                          bstatus := ''Driver Assigned'',
                          assignmentTimestamp := Some (h_now h)\<rparr>) st of
             None \<Rightarrow> (st, h\<lparr>h_pc := Finished,
                   h_logs := h_logs h @ [Error ''Error assigning driver to booking'']\<rparr>)
           | Some st' \<Rightarrow> (st', h\<lparr>h_pc := BookingWritten selectedDriver\<rparr>))
      | BookingWritten selectedDriver \<Rightarrow>
          (case update_driver (s_driverId selectedDriver)
                  (\<lambda>d. d\<lparr>status := ''assigned'', currentBookingId := Some (h_bookingId h)\<rparr>) st of
             None \<Rightarrow> (st, h\<lparr>h_pc := Finished,
                   h_logs := h_logs h @ [Error ''Error assigning driver to booking'']\<rparr>)
           | Some st' \<Rightarrow> (st', h\<lparr>h_pc := Finished,
                   h_logs := h_logs h @ [Info ''Driver assigned to booking'']\<rparr>))
      | Finished \<Rightarrow> (st, h))"

text \<open>An invocation that runs alone performs its three steps one after the other.\<close>

definition new_handler :: "string \<Rightarrow> booking \<Rightarrow> int \<Rightarrow> handler" where
  "new_handler bid b now =
     \<lparr>h_bookingId = bid, h_bookingData = b, h_now = now, h_pc = Start, h_logs = []\<rparr>"

definition assignDriverToBooking :: "scorers \<Rightarrow> store \<Rightarrow> string \<Rightarrow> booking \<Rightarrow> int \<Rightarrow> store \<times> handler" where
  "assignDriverToBooking sc st bid b now =
     (let (st1, h1) = handler_step sc st (new_handler bid b now);
          (st2, h2) = handler_step sc st1 h1
      in handler_step sc st2 h2)"






section \<open>Location updates (\<open>updateDriverLocationInFirestore\<close>)\<close>

text \<open>
  A sample of the Geolocation API: the coordinates, and the time at which the device
  captured them. \<open>heading\<close> and \<open>speed\<close> may be \<open>null\<close>.
\<close>

record coords = geopoint +
  accuracy :: jsnum
  heading :: "jsnum option"
  speed :: "jsnum option"

record position =
  coords :: coords
  timestamp :: int

text \<open>The \<open>tracking\<close> block of a booking, and the booking fields the function reads.\<close>

record tracking =
  enabled :: bool
  lastUpdateTime :: "int option"
  tracking_currentLocation :: "point option"
  driverBatteryLevel :: "jsnum option"
  distance_remaining :: "jsnum option"
  estimatedArrival :: "jsnum option"

record tracked_booking =
  assignedDriver :: "string option"
  tb_status :: string
  tb_dropoffLocation :: "point option"
  tracking :: tracking

record location_fix =
  fix_lat :: jsnum
  fix_lng :: jsnum
  fix_accuracy :: jsnum
  fix_heading :: jsnum
  fix_speed :: jsnum

record user =
  lastKnownLocation :: "(location_fix \<times> int \<times> jsnum) option"
  isLocationSharingActive :: bool
  lastLocationUpdate :: "int option"

record driverLocation =
  dl_driverId :: string
  dl_timestamp :: int
  dl_location :: location_fix
  dl_batteryLevel :: jsnum
  dl_status :: string
  geohash :: string

text \<open>
  The three collections the function touches; the bookings are listed in the order in
  which a query returns them.
\<close>

record db =
  users :: "string \<rightharpoonup> user"
  driverLocations :: "driverLocation list"
  tracked_bookings :: "(string \<times> tracked_booking) list"

text \<open>
  What the function takes from its environment: the server timestamp, the arrival time
  that \<open>Date\<close> arithmetic in the local time zone yields for a number of hours from now
  (\<open>setHours(getHours() + h)\<close> on \<open>new Date()\<close>), and the decimal formatting
  \<open>toFixed\<close>.
\<close>

record env =
  serverTimestamp :: int
  arrival_date :: "jsnum \<Rightarrow> jsnum"
  toFixed :: "jsnum \<Rightarrow> nat \<Rightarrow> string"

definition calculateDistance :: "mathlib \<Rightarrow> jsnum \<Rightarrow> jsnum \<Rightarrow> jsnum \<Rightarrow> jsnum \<Rightarrow> jsnum" where
  "calculateDistance ml lat1 lon1 lat2 lon2 =
     (let R = Fin 6371000;
          phi1 = jdiv (jmul lat1 Math_PI) (Fin 180);
          phi2 = jdiv (jmul lat2 Math_PI) (Fin 180);
          dphi = jdiv (jmul (jsub lat2 lat1) Math_PI) (Fin 180);
          dlambda = jdiv (jmul (jsub lon2 lon1) Math_PI) (Fin 180);
          a = jadd (jmul (Math_sin ml (jdiv dphi (Fin 2))) (Math_sin ml (jdiv dphi (Fin 2))))
                   (jmul (jmul (jmul (Math_cos ml phi1) (Math_cos ml phi2))
                               (Math_sin ml (jdiv dlambda (Fin 2))))
                         (Math_sin ml (jdiv dlambda (Fin 2))));
          c = jmul (Fin 2) (Math_atan2 ml (Math_sqrt ml a) (Math_sqrt ml (jsub (Fin 1) a)))
      in jmul R c)"

definition calculateGeoHash :: "env \<Rightarrow> jsnum \<Rightarrow> jsnum \<Rightarrow> nat \<Rightarrow> string" where
  "calculateGeoHash ev la lo precision = toFixed ev la precision @ '','' @ toFixed ev lo precision"

definition assigned_bookings :: "db \<Rightarrow> string \<Rightarrow> (string \<times> tracked_booking) list" where
  "assigned_bookings d driver =
     filter (\<lambda>b. assignedDriver (snd b) = Some driver
                 \<and> tb_status (snd b) \<in> set [''Assigned'', ''Picked Up'', ''In Transit''])
       (tracked_bookings d)"

text \<open>
  The remaining distance (km) and the estimated arrival, computed when the booking has a
  drop-off location with truthy coordinates, and \<open>null\<close> otherwise.
\<close>

definition remaining_and_arrival ::
  "mathlib \<Rightarrow> env \<Rightarrow> coords \<Rightarrow> tracked_booking \<Rightarrow> (jsnum \<times> jsnum) option" where
  "remaining_and_arrival ml ev c bookingData =
     (case tb_dropoffLocation bookingData of
        None \<Rightarrow> None
      | Some dl \<Rightarrow>
          if truthy (field (lat dl)) \<and> truthy (field (lng dl)) then
            let remainingDistance =
                  jdiv (calculateDistance ml (latitude c) (longitude c)
                          (ToNumber (field (lat dl))) (ToNumber (field (lng dl)))) (Fin 1000);
                avgSpeedKmh = (if truthy (field (speed c))
                               then jmul (ToNumber (field (speed c))) (lit (36 / 10)) else Fin 30);
                estimatedTimeHours = jdiv remainingDistance (Math_max avgSpeedKmh (Fin 10))
            in Some (remainingDistance, arrival_date ev estimatedTimeHours)
          else None)"

text \<open>The update of one booking document: the fields of its \<open>tracking\<close> block that are set.\<close>

definition tracking_update ::
  "mathlib \<Rightarrow> env \<Rightarrow> coords \<Rightarrow> jsnum \<Rightarrow> tracked_booking \<Rightarrow> tracked_booking \<Rightarrow> tracked_booking" where
  "tracking_update ml ev c batteryLevel bookingData doc =
     (let t = (tracking doc)
            \<lparr>enabled := True,
             lastUpdateTime := Some (serverTimestamp ev),
             tracking_currentLocation := Some \<lparr>lat = Some (latitude c), lng = Some (longitude c)\<rparr>,
             driverBatteryLevel := Some batteryLevel\<rparr>;
          t' = (case remaining_and_arrival ml ev c bookingData of
                  None \<Rightarrow> t
                | Some (remainingDistance, arrival) \<Rightarrow>
                    t\<lparr>distance_remaining := Some remainingDistance,
                      estimatedArrival := Some arrival\<rparr>)
      in doc\<lparr>tracking := t'\<rparr>)"

definition update_tracked :: "string \<Rightarrow> (tracked_booking \<Rightarrow> tracked_booking)
    \<Rightarrow> (string \<times> tracked_booking) list \<Rightarrow> (string \<times> tracked_booking) list" where
  "update_tracked bid f bs = map (\<lambda>b. if fst b = bid then (fst b, f (snd b)) else b) bs"

text \<open>
  The function itself. A missing or empty driver id ends it with a warning. The update
  of the driver's user document throws when the document does not exist, and the
  \<open>catch\<close> block reports the failure; otherwise the sample is appended to
  \<open>driverLocations\<close> and every booking of the snapshot is updated in turn.
\<close>

definition updateDriverLocationInFirestore ::
  "mathlib \<Rightarrow> env \<Rightarrow> string option \<Rightarrow> position \<Rightarrow> jsnum \<Rightarrow> db \<Rightarrow> db \<times> log list" where
  "updateDriverLocationInFirestore ml ev CURRENT_DRIVER_ID pos batteryLevel d =
     (case CURRENT_DRIVER_ID of
        None \<Rightarrow> (d, [Warn ''No driver ID available to update location.''])
      | Some driver \<Rightarrow>
          if driver = [] then (d, [Warn ''No driver ID available to update location.''])
          else
            let assignedBookingsSnapshot = assigned_bookings d driver;
                hasAssignedBookings = (assignedBookingsSnapshot \<noteq> []);
                c = coords pos;
                fix = \<lparr>fix_lat = latitude c, fix_lng = longitude c, fix_accuracy = accuracy c,
                       fix_heading = ToNumber (or_else (field (heading c)) (Num (Fin 0))),
                       fix_speed = ToNumber (or_else (field (speed c)) (Num (Fin 0)))\<rparr>;
                ts = serverTimestamp ev
            in (case users d driver of
                  None \<Rightarrow> (d, [Error ''Error updating driver location in Firestore''])
                | Some u \<Rightarrow>
                    let d1 = d\<lparr>users := (users d)(driver \<mapsto>
                                 u\<lparr>lastKnownLocation := Some (fix, ts, batteryLevel),
                                   isLocationSharingActive := True,
                                   lastLocationUpdate := Some ts\<rparr>)\<rparr>;
                        d2 = d1\<lparr>driverLocations := driverLocations d1 @
                                 [\<lparr>dl_driverId = driver, dl_timestamp = ts, dl_location = fix,
                                   dl_batteryLevel = batteryLevel,
                                   dl_status = (if hasAssignedBookings then ''on_delivery''
                                                else ''active''),
                                   geohash = calculateGeoHash ev (latitude c) (longitude c) 8\<rparr>]\<rparr>;
                        d3 = d2\<lparr>tracked_bookings :=
                                 foldl (\<lambda>bs b. update_tracked (fst b)
                                            (tracking_update ml ev c batteryLevel (snd b)) bs)
                                   (tracked_bookings d2) assignedBookingsSnapshot\<rparr>
                    in (d3, [Info ''Location updated''])))"


section \<open>Tracking sessions (\<open>initializeTracking\<close>)\<close>

text \<open>
  A document of the \<open>trackingSessions\<close> collection. Timestamps are milliseconds since
  the epoch.
\<close>

record trackingSession =
  bookingId :: string
  expiresAt :: "int option"
  accessCount :: "jsnum option"
  lastAccessedAt :: "int option"

text \<open>What the tracking page ends up showing: an error message, or the booking.\<close>

datatype 'b view = ShowError string | Displayed string 'b

text \<open>
  The script of the tracking page is a module. Its two \<open>import\<close> statements, the only
  ones of the page, bind the names below; a name the module neither imports nor declares
  is unbound, and evaluating it throws a \<open>ReferenceError\<close>.
\<close>

definition module_imports :: "string list" where
  "module_imports = [''initializeApp'', ''getFirestore'', ''doc'', ''getDoc'', ''onSnapshot'']"

text \<open>
  The security rule of the collection for the page's client:
  \<open>match /trackingSessions/{sessionId} { allow update: if false; }\<close>.
\<close>

definition trackingSessions_allow_update :: bool where
  "trackingSessions_allow_update = False"

text \<open>
  \<open>await updateDoc(trackingSessionRef, {accessCount: ..., lastAccessedAt: ...})\<close> as the
  page performs it: the callee is evaluated first, then the store decides on the write.
  \<open>None\<close> is the thrown error.
\<close>

definition updateDoc ::
  "(string \<rightharpoonup> trackingSession) \<Rightarrow> string \<Rightarrow> jsnum \<Rightarrow> int \<Rightarrow> (string \<rightharpoonup> trackingSession) option" where
  "updateDoc sessions trackingId count accessed =
     (if ''updateDoc'' \<notin> set module_imports then None
      else if \<not> trackingSessions_allow_update then None
      else (case sessions trackingId of
              None \<Rightarrow> None
            | Some s \<Rightarrow> Some (sessions(trackingId \<mapsto>
                          s\<lparr>accessCount := Some count, lastAccessedAt := Some accessed\<rparr>))))"

text \<open>
  \<open>initializeTracking\<close> reads the clock twice: \<open>accessed\<close> is the time it means to
  write as \<open>lastAccessedAt\<close>, \<open>now\<close> the time the expiry is compared with. The body is
  one \<open>try\<close> block; whatever throws in it ends in the \<open>catch\<close> block, which shows the
  general failure message.
\<close>

definition initializeTracking ::
  "int \<Rightarrow> int \<Rightarrow> (string \<rightharpoonup> trackingSession) \<Rightarrow> (string \<rightharpoonup> 'b) \<Rightarrow> string
   \<Rightarrow> (string \<rightharpoonup> trackingSession) \<times> 'b view" where
  "initializeTracking accessed now sessions bookingDocs trackingId =
     (case sessions trackingId of
        None \<Rightarrow> (sessions, ShowError ''Tracking session not found or has expired.'')
      | Some trackingSession \<Rightarrow>
          (case updateDoc sessions trackingId
                  (jadd (ToNumber (or_else (field (accessCount trackingSession)) (Num (Fin 0))))
                        (Fin 1))
                  accessed of
             None \<Rightarrow>
               (sessions, ShowError ''Failed to load tracking information. Please try again later.'')
           | Some sessions' \<Rightarrow>
               if (case expiresAt trackingSession of None \<Rightarrow> False | Some e \<Rightarrow> e < now)
               then (sessions', ShowError ''This tracking link has expired.'')
               else (case bookingDocs (bookingId trackingSession) of
                       None \<Rightarrow> (sessions', ShowError ''Delivery information not found.'')
                     | Some b \<Rightarrow> (sessions', Displayed (bookingId trackingSession) b))))"
section \<open>Example documents\<close>

definition ex_point :: point where
  "ex_point = \<lparr>lat = Some (Fin 0), lng = Some (Fin 32)\<rparr>"

definition ex_driver :: "string \<Rightarrow> driver" where
  "ex_driver s = \<lparr>id_field = Some ''driver123'', name = ''John Doe'', vehicleType = ''motorcycle'', rating = Fin 4,
     status = s, isActive = True, currentLocation = ex_point, workingHours = [],
     completedDeliveries = Fin 128, activeDeliveries = Fin 0, currentBookingId = None\<rparr>"

definition ex_booking :: booking where
  "ex_booking = \<lparr>bstatus = ''Pending Driver Assignment'', pickupLocation = Some ex_point,
     dropoffLocation = Some ex_point,
     parcelDetails = \<lparr>parcel_type = ''Electronics'', weightKg = Fin 5, parcel_isFragile = True\<rparr>,
     driverId = None, driverName = None, assignmentTimestamp = None\<rparr>"

definition ex_scorers :: scorers where
  "ex_scorers = \<lparr>calculateDistanceScore = (\<lambda>_ _. Fin 0),
     calculateWorkloadScore = (\<lambda>_ a. if a = Fin 0 then Fin 1 else Fin (1 / 2)),
     calculateRatingScore = (\<lambda>_. Fin 0),
     calculateVehicleScore = (\<lambda>_ _. Fin 0),
     calculateAvailabilityScore = (\<lambda>w. if w = [] then Fin 0 else Fin 1)\<rparr>"

definition ex_store_offline :: store where
  "ex_store_offline = \<lparr>drivers = [(''driver123'', ex_driver ''offline'')],
     bookings = [''booking123'' \<mapsto> ex_booking]\<rparr>"

definition ex_mathlib :: mathlib where
  "ex_mathlib = \<lparr>m_sin = (\<lambda>_. Fin 0), m_cos = (\<lambda>_. Fin 1), m_sqrt = (\<lambda>_. Fin 0),
     m_atan2 = (\<lambda>_ _. Fin 0)\<rparr>"

definition ex_bookingData :: bookingData where
  "ex_bookingData = \<lparr>deliveryType = ''direct'',
     packageDetails = Some \<lparr>weight = Fin 5, size = ''medium'', isFragile = True\<rparr>,
     pickup = Some \<lparr>lat = Some (Fin 1), lng = Some (Fin 32)\<rparr>,
     dropoff = Some \<lparr>lat = Some (Fin 2), lng = Some (Fin 33)\<rparr>,
     paymentDetails = Some \<lparr>estimatedFare = Some (Fin 1)\<rparr>\<rparr>"

definition ex_bookingData_no_lng :: bookingData where
  "ex_bookingData_no_lng = ex_bookingData\<lparr>pickup := Some \<lparr>lat = Some (Fin 1), lng = None\<rparr>\<rparr>"


definition ex_session :: trackingSession where
  "ex_session = \<lparr>bookingId = ''booking123'', expiresAt = Some 1000, accessCount = Some (Fin 0),
     lastAccessedAt = None\<rparr>"

definition ex_env :: env where
  "ex_env = \<lparr>serverTimestamp = 5000, arrival_date = (\<lambda>_. Fin 0), toFixed = (\<lambda>_ _. [])\<rparr>"

definition ex_tracked :: tracked_booking where
  "ex_tracked = \<lparr>assignedDriver = Some ''driver123'', tb_status = ''In Transit'',
     tb_dropoffLocation = None,
     tracking = \<lparr>enabled = False, lastUpdateTime = None, tracking_currentLocation = None,
       driverBatteryLevel = None, distance_remaining = None, estimatedArrival = None\<rparr>\<rparr>"

definition ex_db :: db where
  "ex_db = \<lparr>users = [''driver123'' \<mapsto> \<lparr>lastKnownLocation = None,
       isLocationSharingActive = False, lastLocationUpdate = None\<rparr>],
     driverLocations = [],
     tracked_bookings = [(''booking123'', ex_tracked)]\<rparr>"

text \<open>Two samples: the first captured at \<open>2000\<close>, the second, older, at \<open>1000\<close>.\<close>

definition ex_sample_new :: position where
  "ex_sample_new = \<lparr>coords = \<lparr>latitude = Fin 1, longitude = Fin 32, accuracy = Fin 5,
     heading = None, speed = None\<rparr>, timestamp = 2000\<rparr>"

definition ex_sample_old :: position where
  "ex_sample_old = \<lparr>coords = \<lparr>latitude = Fin 2, longitude = Fin 33, accuracy = Fin 5,
     heading = None, speed = None\<rparr>, timestamp = 1000\<rparr>"

text \<open>
  The example driver documents store their own id in the \<open>id\<close> field. Two available
  drivers whose total scores tie: the first has one active delivery and is
  within working hours, the second has none and is outside them.
\<close>

definition ex_driverA :: driver where
  "ex_driverA = (ex_driver ''available'')
     \<lparr>id_field := Some ''driverA'', activeDeliveries := Fin 1,
      workingHours := [(''monday'', ''08:00'', ''18:00'')]\<rparr>"

definition ex_driverB :: driver where
  "ex_driverB = (ex_driver ''available'')\<lparr>id_field := Some ''driverB''\<rparr>"





text \<open>
  One available driver whose document id is \<open>drv_1\<close> while the \<open>id\<close> field stored in
  the document says \<open>driver123\<close>.
\<close>

definition ex_store_stored_id :: store where
  "ex_store_stored_id = \<lparr>drivers = [(''drv_1'', ex_driver ''available'')],
     bookings = [''booking123'' \<mapsto> ex_booking, ''booking456'' \<mapsto> ex_booking]\<rparr>"

section \<open>Properties\<close>

subsection \<open>Rounding to binary64\<close>

lemma pow2_powi: "pow2 e = 2 powi e"
  by (simp add: pow2_def power_int_def inverse_eq_divide power_one_over)

lemma pow2_pos [simp]: "0 < pow2 e"
  by (simp add: pow2_powi)

lemma pow2_nonneg [simp]: "0 \<le> pow2 e"
  using pow2_pos [of e] by (rule less_imp_le)

lemma pow2_neq0 [simp]: "pow2 e \<noteq> 0"
  by (simp add: pow2_powi)

lemma pow2_add: "pow2 (a + b) = pow2 a * pow2 b"
  by (simp add: pow2_powi power_int_add)

lemma pow2_diff: "pow2 (a - b) = pow2 a / pow2 b"
  by (simp add: pow2_powi power_int_diff)

lemma pow2_mono: "a \<le> b \<Longrightarrow> pow2 a \<le> pow2 b"
  by (simp add: pow2_powi power_int_increasing)

lemma pow2_strict_mono: "a < b \<Longrightarrow> pow2 a < pow2 b"
  by (simp add: pow2_powi power_int_strict_increasing)

lemma pow2_le_iff: "pow2 a \<le> pow2 b \<longleftrightarrow> a \<le> b"
  using pow2_mono [of a b] pow2_strict_mono [of b a] by (auto simp: not_le [symmetric])

lemma pow2_less_iff: "pow2 a < pow2 b \<longleftrightarrow> a < b"
  using pow2_mono [of b a] pow2_strict_mono [of a b] by (auto simp: not_less [symmetric])

lemma pow2_nat: "pow2 (int n) = 2 ^ n"
  by (simp add: pow2_def)

lemma pow2_0 [simp]: "pow2 0 = 1"
  by (simp add: pow2_def)

lemma pow2_numeral: "pow2 (numeral n) = 2 ^ numeral n"
  by (simp add: pow2_def)

lemma pow2_neg_numeral: "pow2 (- numeral n) = 1 / 2 ^ numeral n"
  by (simp add: pow2_def)

lemma ilog2_raw:
  assumes "0 < a"
  shows "pow2 (ilog2 a) \<le> a \<and> a < pow2 (ilog2 a + 1)"
proof -
  obtain p q where pq: "quotient_of a = (p, q)" by (cases "quotient_of a")
  have q: "0 < q" using pq quotient_of_denom_pos by blast
  have a: "a = of_int p / of_int q" using pq quotient_of_div by blast
  have p: "0 < p" using assms q a by (simp add: zero_less_divide_iff)
  define bp bq where "bp = bitlen p" and "bq = bitlen q"
  have bp: "2 ^ nat (bp - 1) \<le> p" "p < 2 ^ nat bp"
    using bitlen_bounds [OF p] by (simp_all add: bp_def)
  have bq: "2 ^ nat (bq - 1) \<le> q" "q < 2 ^ nat bq"
    using bitlen_bounds [OF q] by (simp_all add: bq_def)
  have bp1: "1 \<le> bp" using p by (simp add: bp_def bitlen_alt_def)
  have bq1: "1 \<le> bq" using q by (simp add: bq_def bitlen_alt_def)
  have P1: "pow2 (bp - 1) \<le> of_int p"
  proof -
    have "(of_int (2 ^ nat (bp - 1)) :: rat) \<le> of_int p" using bp(1) by (simp only: of_int_le_iff)
    moreover have "pow2 (bp - 1) = 2 ^ nat (bp - 1)" using bp1 by (simp add: pow2_def)
    ultimately show ?thesis by simp
  qed
  have P2: "of_int p < pow2 bp"
  proof -
    have "(of_int p :: rat) < of_int (2 ^ nat bp)" using bp(2) by (simp only: of_int_less_iff)
    moreover have "pow2 bp = 2 ^ nat bp" using bp1 by (simp add: pow2_def)
    ultimately show ?thesis by simp
  qed
  have Q1: "pow2 (bq - 1) \<le> of_int q"
  proof -
    have "(of_int (2 ^ nat (bq - 1)) :: rat) \<le> of_int q" using bq(1) by (simp only: of_int_le_iff)
    moreover have "pow2 (bq - 1) = 2 ^ nat (bq - 1)" using bq1 by (simp add: pow2_def)
    ultimately show ?thesis by simp
  qed
  have Q2: "of_int q < pow2 bq"
  proof -
    have "(of_int q :: rat) < of_int (2 ^ nat bq)" using bq(2) by (simp only: of_int_less_iff)
    moreover have "pow2 bq = 2 ^ nat bq" using bq1 by (simp add: pow2_def)
    ultimately show ?thesis by simp
  qed
  have qpos: "(0::rat) < of_int q" using q by simp
  have ppos: "(0::rat) < of_int p" using p by simp
  have lo: "pow2 (bp - bq - 1) < a"
  proof -
    have "pow2 (bp - bq - 1) * of_int q < pow2 (bp - bq - 1) * pow2 bq"
      using Q2 by (simp add: mult_strict_left_mono)
    also have "\<dots> = pow2 (bp - 1)" by (simp add: pow2_add [symmetric])
    also have "\<dots> \<le> of_int p" by (rule P1)
    finally show ?thesis using qpos by (simp add: a pos_less_divide_eq)
  qed
  have hi: "a < pow2 (bp - bq + 1)"
  proof -
    have "of_int p < pow2 bp" by (rule P2)
    also have "\<dots> = pow2 (bp - bq + 1) * pow2 (bq - 1)" by (simp add: pow2_add [symmetric])
    also have "\<dots> \<le> pow2 (bp - bq + 1) * of_int q"
      using Q1 by (simp add: mult_left_mono)
    finally show ?thesis using qpos by (simp add: a pos_divide_less_eq)
  qed
  have il: "ilog2 a = (if pow2 (bp - bq) \<le> a then bp - bq else bp - bq - 1)"
    by (simp add: ilog2_def pq bp_def bq_def Let_def)
  show ?thesis
  proof (cases "pow2 (bp - bq) \<le> a")
    case True
    then show ?thesis using hi il by simp
  next
    case False
    then show ?thesis using lo il by (simp add: less_imp_le not_le)
  qed
qed

lemma ilog2_unique:
  assumes "0 < a" "pow2 k \<le> a" "a < pow2 (k + 1)"
  shows "ilog2 a = k"
proof -
  have b: "pow2 (ilog2 a) \<le> a" "a < pow2 (ilog2 a + 1)" using ilog2_raw [OF assms(1)] by auto
  have "pow2 (ilog2 a) < pow2 (k + 1)" using b(1) assms(3) by (rule le_less_trans)
  then have 1: "ilog2 a < k + 1" by (simp add: pow2_less_iff)
  have "pow2 k < pow2 (ilog2 a + 1)" using assms(2) b(2) by (rule le_less_trans)
  then have 2: "k < ilog2 a + 1" by (simp add: pow2_less_iff)
  from 1 2 show ?thesis by simp
qed

lemma rhe_err: "\<bar>of_int (round_half_even x) - x\<bar> \<le> 1 / 2"
proof -
  have "of_int \<lfloor>x\<rfloor> \<le> x" "x < of_int \<lfloor>x\<rfloor> + 1" by linarith+
  then show ?thesis by (auto simp: round_half_even_def Let_def)
qed

lemma rhe_near:
  assumes "\<bar>x - of_int n\<bar> < 1 / 2"
  shows "round_half_even x = n"
proof -
  have e: "\<bar>of_int (round_half_even x) - x\<bar> \<le> 1 / 2" by (rule rhe_err)
  have "\<bar>(of_int (round_half_even x) :: rat) - of_int n\<bar> < 1" using e assms by linarith
  then have "\<bar>(of_int (round_half_even x - n) :: rat)\<bar> < 1" by simp
  then have "\<bar>round_half_even x - n\<bar> < 1" by (simp only: of_int_abs [symmetric] of_int_less_1_iff)
  then show ?thesis by simp
qed

lemma rhe_of_int [simp]: "round_half_even (of_int n) = n"
  by (rule rhe_near) simp

lemma rhe_tie:
  assumes "x = of_int n + 1 / 2"
  shows "round_half_even x = (if even n then n else n + 1)"
proof -
  have "\<lfloor>x\<rfloor> = n" using assms by (simp add: floor_unique)
  then show ?thesis using assms by (simp add: round_half_even_def Let_def)
qed


lemma rhe_nonneg: assumes "0 \<le> x" shows "0 \<le> round_half_even x"
proof -
  have "\<bar>of_int (round_half_even x) - x\<bar> \<le> 1 / 2" by (rule rhe_err)
  then have "(-1::rat) < of_int (round_half_even x)" using assms by linarith
  then have "-1 < round_half_even x" by (metis of_int_less_iff of_int_minus of_int_1)
  then show ?thesis by simp
qed


lemma ilog2_le: assumes "0 < a" "a < pow2 (k + 1)" shows "ilog2 a \<le> k"
proof -
  have "pow2 (ilog2 a) \<le> a" using ilog2_raw [OF assms(1)] by simp
  then have "pow2 (ilog2 a) < pow2 (k + 1)" using assms(2) by (rule le_less_trans)
  then show ?thesis by (simp add: pow2_less_iff)
qed




lemma pow2_ulp_abs:
  assumes "0 < a" "a \<le> B" "pow2 (- 1022) \<le> B"
  shows "pow2 (ulp_exp a) \<le> B / 2 ^ 52"
proof (cases "- 1022 \<le> ilog2 a")
  case True
  then have "ulp_exp a = ilog2 a - 52" by (simp add: ulp_exp_def)
  then have "pow2 (ulp_exp a) = pow2 (ilog2 a) / 2 ^ 52" by (simp add: pow2_diff pow2_numeral)
  moreover have "pow2 (ilog2 a) \<le> B" using ilog2_raw [OF assms(1)] assms(2) by simp
  ultimately show ?thesis by (simp add: divide_right_mono)
next
  case False
  then have "ulp_exp a = - 1022 - 52" by (simp add: ulp_exp_def)
  then have "pow2 (ulp_exp a) = pow2 (- 1022) / 2 ^ 52" by (simp only: pow2_diff pow2_numeral)
  then show ?thesis using assms(3) by (simp add: divide_right_mono)
qed

lemma pow2_ulp_rel:
  assumes "pow2 (- 1022) \<le> a"
  shows "pow2 (ulp_exp a) \<le> a / 2 ^ 52"
proof -
  have "0 < pow2 (- 1022)" by (rule pow2_pos)
  then have "0 < a" using assms by linarith
  then show ?thesis using assms by (intro pow2_ulp_abs) auto
qed

lemma round_mag_err:
  "\<bar>round_mag a - a\<bar> \<le> pow2 (ulp_exp a) / 2"
proof -
  define u where "u = pow2 (ulp_exp a)"
  have u: "0 < u" by (simp add: u_def)
  have "\<bar>of_int (round_half_even (a / u)) - a / u\<bar> \<le> 1 / 2" by (rule rhe_err)
  then have "\<bar>of_int (round_half_even (a / u)) - a / u\<bar> * u \<le> 1 / 2 * u"
    using u by (simp add: mult_right_mono)
  moreover have "\<bar>of_int (round_half_even (a / u)) - a / u\<bar> * u
      = \<bar>of_int (round_half_even (a / u)) * u - a\<bar>"
  proof -
    have "\<bar>of_int (round_half_even (a / u)) - a / u\<bar> * u
        = \<bar>(of_int (round_half_even (a / u)) - a / u) * u\<bar>"
      using u by (simp add: abs_mult)
    also have "(of_int (round_half_even (a / u)) - a / u) * u
        = of_int (round_half_even (a / u)) * u - a"
      using u by (simp add: left_diff_distrib)
    finally show ?thesis .
  qed
  ultimately have "\<bar>of_int (round_half_even (a / u)) * u - a\<bar> \<le> u / 2" by linarith
  then show ?thesis by (simp only: round_mag_def u_def)
qed

lemma round_mag_nonneg: assumes "0 \<le> a" shows "0 \<le> round_mag a"
proof -
  have "0 \<le> a / pow2 (ulp_exp a)" using assms by (intro divide_nonneg_pos) simp_all
  then have "0 \<le> round_half_even (a / pow2 (ulp_exp a))" by (rule rhe_nonneg)
  then have "(0::rat) \<le> of_int (round_half_even (a / pow2 (ulp_exp a)))" by simp
  then show ?thesis unfolding round_mag_def by (intro mult_nonneg_nonneg) simp_all
qed



lemma round_mag_exact:
  assumes "a = of_int n * pow2 e" "0 < n" "n < 2 ^ 53" "- 1074 \<le> e"
  shows "round_mag a = a"
proof -
  have npos: "(0::rat) < of_int n" using assms(2) by simp
  have a: "0 < a" using npos by (simp add: assms(1))
  have "(of_int n :: rat) < of_int (2 ^ 53)" using assms(3) by (simp only: of_int_less_iff)
  then have "of_int n * pow2 e < 2 ^ 53 * pow2 e" by (simp add: mult_strict_right_mono)
  also have "\<dots> = pow2 (e + 53)" by (simp only: pow2_add pow2_numeral mult.commute)
  also have "e + 53 = e + 52 + 1" by simp
  finally have "a < pow2 (e + 52 + 1)" by (simp only: assms(1))
  with a have "ilog2 a \<le> e + 52" by (rule ilog2_le)
  then have "ulp_exp a \<le> e" using assms(4) by (simp add: ulp_exp_def)
  define u where "u = ulp_exp a"
  have le: "u \<le> e" using \<open>ulp_exp a \<le> e\<close> by (simp add: u_def)
  define d where "d = nat (e - u)"
  have e: "e = u + int d" using le by (simp add: d_def)
  have "pow2 e = pow2 u * pow2 (int d)" by (subst e) (rule pow2_add)
  then have pe: "pow2 e = pow2 u * of_int (2 ^ d)" by (simp add: pow2_nat)
  have upos: "0 < pow2 u" by (rule pow2_pos)
  have "of_int n * (pow2 u * of_int (2 ^ d)) / pow2 u = (of_int (n * 2 ^ d) :: rat)"
    using upos by simp
  then have q: "a / pow2 u = of_int (n * 2 ^ d)" by (simp only: assms(1) pe)
  have "round_mag a = of_int (round_half_even (a / pow2 u)) * pow2 u"
    by (simp only: round_mag_def u_def)
  also have "\<dots> = of_int (n * 2 ^ d) * pow2 u" by (simp only: q rhe_of_int)
  also have "\<dots> = of_int n * (pow2 u * of_int (2 ^ d))" by simp
  also have "\<dots> = a" by (simp only: assms(1) pe)
  finally show ?thesis .
qed

lemma pow2_1: "pow2 1 = 2"
  by (simp add: pow2_def)

lemma pow2_m1: "pow2 (- 1) = 1 / 2"
  by (simp add: pow2_def)

lemmas pow2_eval = pow2_numeral pow2_neg_numeral pow2_0 pow2_1 pow2_m1

lemma rnd64_pos:
  "0 < q \<Longrightarrow> rnd64 q = (if pow2 1024 \<le> round_mag q then PInf else Fin (round_mag q))"
  by (simp add: rnd64_def Let_def)

lemma rnd64_neg:
  "q < 0 \<Longrightarrow> rnd64 q = (if pow2 1024 \<le> round_mag (- q) then NInf else Fin (- round_mag (- q)))"
  by (simp add: rnd64_def Let_def)

lemma rnd64_0 [simp]: "rnd64 0 = Fin 0"
  by (simp add: rnd64_def)

lemma rnd64_minus: "rnd64 (- q) = jneg (rnd64 q)"
proof -
  consider "q = 0" | "0 < q" | "q < 0" by linarith
  then show ?thesis
  proof cases
    case 1 then show ?thesis by simp
  next
    case 2 then show ?thesis by (simp add: rnd64_pos rnd64_neg)
  next
    case 3 then show ?thesis by (simp add: rnd64_pos rnd64_neg)
  qed
qed

lemma round_mag_close:
  assumes "0 < a" "a \<le> B" "pow2 (- 1022) \<le> B"
  shows "\<bar>round_mag a - a\<bar> \<le> B / 2 ^ 53"
proof -
  have "\<bar>round_mag a - a\<bar> \<le> pow2 (ulp_exp a) / 2" by (rule round_mag_err)
  moreover have "pow2 (ulp_exp a) \<le> B / 2 ^ 52" using assms by (rule pow2_ulp_abs)
  ultimately show ?thesis by simp
qed

lemma pow2_1000_lt: "pow2 1000 + pow2 1000 / 2 ^ 53 < pow2 1024"
  by (simp add: pow2_eval)

lemma pow2_m1022_le_1: "pow2 (- 1022) \<le> 1"
  by (simp add: pow2_eval)

lemma rnd64_fin:
  assumes "0 \<le> q" "q \<le> B" "1 \<le> B" "B \<le> pow2 1000"
  shows "\<exists>r. rnd64 q = Fin r \<and> 0 \<le> r \<and> r \<le> B + B / 2 ^ 53 \<and> \<bar>r - q\<bar> \<le> B / 2 ^ 53"
proof (cases "q = 0")
  case True
  then show ?thesis using assms(3) by simp
next
  case False
  then have q: "0 < q" using assms(1) by simp
  have B: "pow2 (- 1022) \<le> B" using pow2_m1022_le_1 assms(3) by linarith
  have c: "\<bar>round_mag q - q\<bar> \<le> B / 2 ^ 53" using q assms(2) B by (rule round_mag_close)
  have "B / 2 ^ 53 \<le> pow2 1000 / 2 ^ 53" using assms(4) by (simp add: divide_right_mono)
  then have "round_mag q < pow2 1024" using c assms(2,4) pow2_1000_lt by linarith
  then have "rnd64 q = Fin (round_mag q)" using q by (simp add: rnd64_pos)
  moreover have "0 \<le> round_mag q" using assms(1) by (rule round_mag_nonneg)
  moreover have "round_mag q \<le> B + B / 2 ^ 53" using c assms(2) by linarith
  ultimately show ?thesis using c by simp
qed

lemma rnd64_rel:
  assumes "pow2 (- 1022) \<le> q" "q \<le> pow2 1000"
  shows "\<exists>r. rnd64 q = Fin r \<and> \<bar>r - q\<bar> \<le> q / 2 ^ 53"
proof -
  have q: "0 < q" using assms(1) pow2_pos [of "- 1022"] by linarith
  have c: "\<bar>round_mag q - q\<bar> \<le> q / 2 ^ 53" using q order_refl assms(1) by (rule round_mag_close)
  have "q / 2 ^ 53 \<le> pow2 1000 / 2 ^ 53" using assms(2) by (simp add: divide_right_mono)
  then have "round_mag q < pow2 1024" using c assms(2) pow2_1000_lt by linarith
  then have "rnd64 q = Fin (round_mag q)" using q by (simp add: rnd64_pos)
  then show ?thesis using c by simp
qed

lemma rnd64_exact_pos:
  assumes "a = of_int n * pow2 e" "0 < n" "n < 2 ^ 53" "- 1074 \<le> e" "a < pow2 1024"
  shows "rnd64 a = Fin a"
proof -
  have r: "round_mag a = a" using assms(1-4) by (rule round_mag_exact)
  have "(0::rat) < of_int n" using assms(2) by simp
  then have "0 < a" by (simp add: assms(1))
  then show ?thesis using r assms(5) by (simp add: rnd64_pos)
qed

lemma rnd64_int:
  assumes "\<bar>n\<bar> < 2 ^ 53"
  shows "rnd64 (of_int n) = Fin (of_int n)"
proof -
  have big: "(2::rat) ^ 53 < pow2 1024" by (simp add: pow2_eval)
  have pos: "rnd64 (of_int m) = Fin (of_int m)" if m: "0 < m" "m < 2 ^ 53" for m
  proof (rule rnd64_exact_pos [where n = m and e = 0])
    show "(of_int m :: rat) = of_int m * pow2 0" by simp
    show "0 < m" "m < 2 ^ 53" by (rule m)+
    show "- 1074 \<le> (0::int)" by simp
    have "(of_int m :: rat) < of_int (2 ^ 53)" using m(2) by (simp only: of_int_less_iff)
    then show "(of_int m :: rat) < pow2 1024" using big by simp
  qed
  consider "n = 0" | "0 < n" | "n < 0" by linarith
  then show ?thesis
  proof cases
    case 1 then show ?thesis by simp
  next
    case 2 then show ?thesis using assms by (intro pos) simp_all
  next
    case 3
    then have "rnd64 (of_int (- n)) = Fin (of_int (- n))" using assms by (intro pos) simp_all
    then have "rnd64 (- of_int n) = Fin (- of_int n)" by simp
    then have "jneg (rnd64 (of_int n)) = Fin (- of_int n)" by (simp only: rnd64_minus)
    then show ?thesis by (cases "rnd64 (of_int n)") simp_all
  qed
qed

lemma rnd64_eval_aux:
  assumes "0 < q" "pow2 k \<le> q" "q < pow2 (k + 1)" "k < 1023"
  shows "ulp_exp q = max k (- 1022) - 52" "round_mag q < pow2 1024"
proof -
  have k: "ilog2 q = k" using assms(1-3) by (rule ilog2_unique)
  then show "ulp_exp q = max k (- 1022) - 52" by (simp add: ulp_exp_def)
  have "pow2 (k + 1) \<le> pow2 1023" using assms(4) by (intro pow2_mono) simp
  then have qB: "q \<le> pow2 1023" using assms(3) by linarith
  have "pow2 (- 1022) \<le> pow2 1023" by (intro pow2_mono) simp
  with assms(1) qB have "\<bar>round_mag q - q\<bar> \<le> pow2 1023 / 2 ^ 53" by (rule round_mag_close)
  moreover have "pow2 1023 + pow2 1023 / 2 ^ 53 < pow2 1024" by (simp add: pow2_eval)
  ultimately show "round_mag q < pow2 1024" using qB by linarith
qed

lemma rnd64_eval:
  assumes "0 < q" "pow2 k \<le> q" "q < pow2 (k + 1)" "k < 1023"
    and "\<bar>q / pow2 (max k (- 1022) - 52) - of_int n\<bar> < 1 / 2"
  shows "rnd64 q = Fin (of_int n * pow2 (max k (- 1022) - 52))"
proof -
  note aux = rnd64_eval_aux [OF assms(1-4)]
  have "round_half_even (q / pow2 (max k (- 1022) - 52)) = n" using assms(5) by (rule rhe_near)
  then have "round_mag q = of_int n * pow2 (max k (- 1022) - 52)"
    by (simp add: round_mag_def aux(1))
  then show ?thesis using aux(2) assms(1) by (simp add: rnd64_pos)
qed

lemma rnd64_eval_tie:
  assumes "0 < q" "pow2 k \<le> q" "q < pow2 (k + 1)" "k < 1023"
    and "q / pow2 (max k (- 1022) - 52) = of_int n + 1 / 2"
  shows "rnd64 q = Fin (of_int (if even n then n else n + 1) * pow2 (max k (- 1022) - 52))"
proof -
  note aux = rnd64_eval_aux [OF assms(1-4)]
  have "round_half_even (q / pow2 (max k (- 1022) - 52)) = (if even n then n else n + 1)"
    using assms(5) by (rule rhe_tie)
  then have "round_mag q = of_int (if even n then n else n + 1) * pow2 (max k (- 1022) - 52)"
    by (simp only: round_mag_def aux(1))
  then show ?thesis using aux(2) assms(1) by (simp add: rnd64_pos)
qed

subsection \<open>The fare functions on valid inputs\<close>

text \<open>The doubles denoted by the literals \<open>1.2\<close>, \<open>1.5\<close>, \<open>0.9\<close> and \<open>0.15\<close>.\<close>

lemma lit_eval_1: "rnd64 (6 / 5) = Fin (5404319552844595 / 4503599627370496)"
  using rnd64_eval [where q = "6 / 5" and k = "0" and n = 5404319552844595]
  by (simp add: pow2_eval)

lemma lit_eval_2: "rnd64 (3 / 2) = Fin (3 / 2)"
  using rnd64_eval [where q = "3 / 2" and k = "0" and n = 6755399441055744]
  by (simp add: pow2_eval)

lemma lit_eval_3: "rnd64 (9 / 10) = Fin (8106479329266893 / 9007199254740992)"
  using rnd64_eval [where q = "9 / 10" and k = "- 1" and n = 8106479329266893]
  by (simp add: pow2_eval)

lemma lit_eval_4: "rnd64 (3 / 20) = Fin (5404319552844595 / 36028797018963968)"
  using rnd64_eval [where q = "3 / 20" and k = "- 3" and n = 5404319552844595]
  by (simp add: pow2_eval)

lemmas lit_evals = lit_eval_1 lit_eval_2 lit_eval_3 lit_eval_4

text \<open>
  A product or a sum of two non-negative finite numbers within bounds is finite, and at
  most twice the bound of the exact result.
\<close>

lemma jmul_bound:
  assumes "0 \<le> a" "a \<le> A" "0 \<le> b" "b \<le> B" "1 \<le> A * B" "A * B \<le> pow2 1000"
  shows "\<exists>r. jmul (Fin a) (Fin b) = Fin r \<and> 0 \<le> r \<and> r \<le> 2 * (A * B)"
proof -
  have 1: "0 \<le> a * b" using assms(1,3) by simp
  have 2: "a * b \<le> A * B" using assms(1-4) by (intro mult_mono) auto
  from rnd64_fin [OF 1 2 assms(5,6)] obtain r where
    r: "rnd64 (a * b) = Fin r" "0 \<le> r" "r \<le> A * B + A * B / 2 ^ 53" by blast
  have "A * B / 2 ^ 53 \<le> A * B" using assms(5) by simp
  with r(3) have "r \<le> 2 * (A * B)" by linarith
  with r(1,2) show ?thesis by simp
qed

lemma jadd_bound:
  assumes "0 \<le> a" "a \<le> A" "0 \<le> b" "b \<le> B" "1 \<le> A + B" "A + B \<le> pow2 1000"
  shows "\<exists>r. jadd (Fin a) (Fin b) = Fin r \<and> 0 \<le> r \<and> r \<le> 2 * (A + B)"
proof -
  define S where "S = A + B"
  have 1: "0 \<le> a + b" using assms(1,3) by simp
  have 2: "a + b \<le> S" using assms(2,4) by (simp add: S_def)
  have 3: "1 \<le> S" "S \<le> pow2 1000" using assms(5,6) by (simp_all add: S_def)
  from rnd64_fin [OF 1 2 3] obtain r where
    r: "rnd64 (a + b) = Fin r" "0 \<le> r" "r \<le> S + S / 2 ^ 53" by blast
  have "S / 2 ^ 53 \<le> S" using 3(1) by simp
  with r(3) have "r \<le> 2 * S" by linarith
  with r(1,2) show ?thesis by (simp add: S_def)
qed

lemma size_multiplier_valid:
  assumes "s \<in> set [''small'', ''medium'', ''large'', ''xlarge'']"
  obtains mv where "ToNumber (or_else (SIZE_MULTIPLIERS s) (Num (Fin 1))) = Fin mv"
    "1 \<le> mv" "mv \<le> 2"
proof -
  consider "s = ''small''" | "s = ''medium''" | "s = ''large''" | "s = ''xlarge''"
    using assms by auto
  then show ?thesis
  proof cases
    case 1 then show ?thesis by (intro that [of 1]) (simp_all add: SIZE_MULTIPLIERS_def or_else_def)
  next
    case 2 then show ?thesis
      by (intro that [of "5404319552844595 / 4503599627370496"])
        (simp_all add: SIZE_MULTIPLIERS_def or_else_def lit_evals)
  next
    case 3 then show ?thesis
      by (intro that [of "3 / 2"]) (simp_all add: SIZE_MULTIPLIERS_def or_else_def lit_evals)
  next
    case 4 then show ?thesis by (intro that [of 2]) (simp_all add: SIZE_MULTIPLIERS_def or_else_def)
  qed
qed


lemma additive_formula_bound:
  assumes "valid_fare_input distance w s" "0 \<le> base" "base \<le> 3000"
  shows "\<exists>T. additive_formula (Fin base) distance w s f = Fin T
    \<and> 0 \<le> T \<and> T \<le> 28800027000"
proof -
  from assms(1) obtain d x where dx: "distance = Fin d" "w = Fin x"
    and d: "0 \<le> d" "d \<le> 1000000" and x: "0 \<le> x" "x \<le> 1000000"
    and s: "s \<in> set [''small'', ''medium'', ''large'', ''xlarge'']"
    by (auto simp: valid_fare_input_def split: jsnum.splits)
  from size_multiplier_valid [OF s] obtain mv where
    mv: "ToNumber (or_else (SIZE_MULTIPLIERS s) (Num (Fin 1))) = Fin mv" "1 \<le> mv" "mv \<le> 2"
    by blast
  obtain fee where fee: "(if f then FRAGILE_FEE else Fin 0) = Fin fee" "0 \<le> fee" "fee \<le> 1500"
    by (cases f) (simp_all add: FRAGILE_FEE_def)
  have "\<exists>r. jmul (Fin d) (Fin 800) = Fin r \<and> 0 \<le> r \<and> r \<le> 2 * (1000000 * 800)"
    by (rule jmul_bound) (use d in \<open>simp_all add: pow2_eval\<close>)
  then obtain r1 where r1: "jmul (Fin d) (Fin 800) = Fin r1" "0 \<le> r1" "r1 \<le> 1600000000"
    by auto
  have "\<exists>r. jadd (Fin base) (Fin r1) = Fin r \<and> 0 \<le> r \<and> r \<le> 2 * (3000 + 1600000000)"
    by (rule jadd_bound) (use assms(2,3) r1 in \<open>simp_all add: pow2_eval\<close>)
  then obtain r2 where r2: "jadd (Fin base) (Fin r1) = Fin r2" "0 \<le> r2" "r2 \<le> 3200006000"
    by auto
  have "\<exists>r. jmul (Fin x) (Fin 500) = Fin r \<and> 0 \<le> r \<and> r \<le> 2 * (1000000 * 500)"
    by (rule jmul_bound) (use x in \<open>simp_all add: pow2_eval\<close>)
  then obtain y1 where y1: "jmul (Fin x) (Fin 500) = Fin y1" "0 \<le> y1" "y1 \<le> 1000000000"
    by auto
  have "\<exists>r. jmul (Fin y1) (Fin mv) = Fin r \<and> 0 \<le> r \<and> r \<le> 2 * (1000000000 * 2)"
    by (rule jmul_bound) (use y1 mv in \<open>simp_all add: pow2_eval\<close>)
  then obtain y2 where y2: "jmul (Fin y1) (Fin mv) = Fin y2" "0 \<le> y2" "y2 \<le> 4000000000"
    by auto
  have "\<exists>r. jadd (Fin r2) (Fin y2) = Fin r \<and> 0 \<le> r \<and> r \<le> 2 * (3200006000 + 4000000000)"
    by (rule jadd_bound) (use r2 y2 in \<open>simp_all add: pow2_eval\<close>)
  then obtain r3 where r3: "jadd (Fin r2) (Fin y2) = Fin r3" "0 \<le> r3" "r3 \<le> 14400012000"
    by auto
  have "\<exists>r. jadd (Fin r3) (Fin fee) = Fin r \<and> 0 \<le> r \<and> r \<le> 2 * (14400012000 + 1500)"
    by (rule jadd_bound) (use r3 fee in \<open>simp_all add: pow2_eval\<close>)
  then obtain T where T: "jadd (Fin r3) (Fin fee) = Fin T" "0 \<le> T" "T \<le> 28800027000"
    by auto
  have "additive_formula (Fin base) distance w s f = Fin T"
    by (simp only: additive_formula_def dx mv(1) fee(1) PER_KM_RATE_def PER_KG_RATE_def r1(1) r2(1) y1(1) y2(1) r3(1) T(1))
  with T(2,3) show ?thesis by blast
qed

lemma direct_fare_unfold:
  "calculateDirectDeliveryFare distance w s f =
     (let total = Math_max (additive_formula DIRECT_DELIVERY_BASE_FARE distance w s f) MINIMUM_FARE
      in \<lparr>totalFare = total, commission = jmul total COMMISSION_RATE,
          driverPayout = jsub total (jmul total COMMISSION_RATE)\<rparr>)"
  by (simp add: calculateDirectDeliveryFare_def additive_formula_def Let_def)

lemma collection_fare_unfold:
  "totalFare (calculateCollectionPointFare distance w s f)
     = jmul (Math_round (jdiv (jmul (additive_formula COLLECTION_POINT_BASE_FARE distance w s f)
                                    COLLECTION_POINT_DISCOUNT) (Fin 100))) (Fin 100)"
  by (simp add: calculateCollectionPointFare_def additive_formula_def Let_def)

lemma discount_value: "COLLECTION_POINT_DISCOUNT = Fin (8106479329266893 / 9007199254740992)"
  by (simp add: COLLECTION_POINT_DISCOUNT_def lit_evals)

subsection \<open>NaN propagates\<close>

lemma jadd_NaN_right [simp]: "jadd x NaN = NaN"
  by (cases x) simp_all

lemma jmul_NaN_right [simp]: "jmul x NaN = NaN"
  by (cases x) simp_all

lemma jdiv_NaN_right [simp]: "jdiv x NaN = NaN"
  by (cases x) simp_all

lemma jsub_NaN [simp]: "jsub x NaN = NaN" "jsub NaN x = NaN"
  by (simp_all add: jsub_def)

lemma jlt_NaN_right [simp]: "jlt x NaN = False"
  by (cases x) simp_all

lemma Math_max_NaN [simp]: "Math_max NaN x = NaN" "Math_max x NaN = NaN"
  by (simp_all add: Math_max_def)

lemma Math_atan2_NaN [simp]: "Math_atan2 ml NaN x = NaN" "Math_atan2 ml x NaN = NaN"
  by (simp_all add: Math_atan2_def)

text \<open>An infinity divided by a finite number keeps its sign unless the divisor is negative.\<close>

lemma jdiv_infinite:
  "jdiv NInf (Fin 100) = NInf" "jdiv NInf (Fin (- 100)) = PInf"
  "jdiv PInf (Fin 100) = PInf" "jdiv PInf (Fin (- 100)) = NInf"
  by simp_all
subsection \<open>Sorting the scored drivers\<close>
















lemma score_driver_fields:
  "s_driverId (score_driver sc gp b d) = fst d"
  "s_driverName (score_driver sc gp b d) = name (snd d)"
  "totalScore (score_driver sc gp b d) =
     jadd (jadd (jadd (jadd
       (jmul (calculateDistanceScore sc (currentLocation (snd d)) gp) (lit (4 / 10)))
       (jmul (calculateWorkloadScore sc (completedDeliveries (snd d)) (activeDeliveries (snd d)))
          (lit (2 / 10))))
       (jmul (calculateRatingScore sc (rating (snd d))) (lit (15 / 100))))
       (jmul (calculateVehicleScore sc (vehicleType (snd d)) (parcelDetails b)) (lit (15 / 100))))
       (jmul (calculateAvailabilityScore sc (workingHours (snd d))) (lit (1 / 10)))"
  by (simp_all add: score_driver_def Let_def)




subsection \<open>Assignment with no available driver\<close>

text \<open>
  C5 (counterexample). With the only driver offline, the pending booking does not end in
  a status \<open>AssignmentFailed\<close>: the function returns after logging, and the booking is
  what it was.
\<close>

theorem no_driver_status_not_failed:
  "bstatus (the (bookings (fst (assignDriverToBooking ex_scorers ex_store_offline
      ''booking123'' ex_booking 0)) ''booking123'')) \<noteq> ''AssignmentFailed''"
  by (simp add: assignDriverToBooking_def handler_step_def new_handler_def Let_def
      available_drivers_def ex_store_offline_def ex_driver_def ex_booking_def)

text \<open>
  C5 (as amended). When no driver has status \<open>available\<close> and is active, the invocation
  for a pending booking logs that no driver was found and writes nothing: the store it
  leaves is the store it found, so the booking keeps its status and no driver document
  is changed.
\<close>

theorem no_driver_writes_nothing:
  assumes "available_drivers st = []"
    and "bstatus b = ''Pending Driver Assignment''"
  shows "fst (assignDriverToBooking sc st bid b now) = st
    \<and> h_logs (snd (assignDriverToBooking sc st bid b now)) = [Info ''No available drivers found'']
    \<and> h_pc (snd (assignDriverToBooking sc st bid b now)) = Finished"
  using assms
  by (simp add: assignDriverToBooking_def handler_step_def new_handler_def Let_def)

theorem no_driver_writes_nothing_witness:
  "available_drivers ex_store_offline = []
   \<and> bstatus ex_booking = ''Pending Driver Assignment''
   \<and> fst (assignDriverToBooking ex_scorers ex_store_offline ''booking123'' ex_booking 0)
       = ex_store_offline"
proof -
  have a: "available_drivers ex_store_offline = []"
    by (simp add: available_drivers_def ex_store_offline_def ex_driver_def)
  have b: "bstatus ex_booking = ''Pending Driver Assignment''"
    by (simp add: ex_booking_def)
  from no_driver_writes_nothing [OF a b, of ex_scorers "''booking123''" 0] a b
  show ?thesis by simp
qed


subsection \<open>Direct-delivery fare\<close>

text \<open>
  The roundings met when the direct fare is computed for a distance of \<open>0.946\<close> km and
  a weight of \<open>2.5\<close> kg, each checked against the definition of \<open>rnd64\<close>.
\<close>

lemma c1_eval_1: "rnd64 (473 / 500) = Fin (4260405247492489 / 4503599627370496)"
  using rnd64_eval [where q = "473 / 500" and k = "- 1" and n = 8520810494984978]
  by (simp add: pow2_eval)

lemma c1_eval_2: "rnd64 (5 / 2) = Fin (5 / 2)"
  using rnd64_eval [where q = "5 / 2" and k = "1" and n = 5629499534213120]
  by (simp add: pow2_eval)

lemma c1_eval_3: "rnd64 (3 / 20) = Fin (5404319552844595 / 36028797018963968)"
  using rnd64_eval [where q = "3 / 20" and k = "- 3" and n = 5404319552844595]
  by (simp add: pow2_eval)

lemma c1_eval_4: "rnd64 (106510131187312225 / 140737488355328) = Fin (3328441599603507 / 4398046511104)"
  using rnd64_eval [where q = "106510131187312225 / 140737488355328" and k = "9" and n = 6656883199207014]
  by (simp add: pow2_eval)

lemma c1_eval_5: "rnd64 (16522581132915507 / 4398046511104) = Fin (4130645283228877 / 1099511627776)"
  using rnd64_eval_tie [where q = "16522581132915507 / 4398046511104" and k = "11" and n = 8261290566457753]
  by (simp add: pow2_eval)

lemma c1_eval_6: "rnd64 (1250) = Fin (1250)"
  using rnd64_eval [where q = "1250" and k = "10" and n = 5497558138880000]
  by (simp add: pow2_eval)

lemma c1_eval_7: "rnd64 (5505034817948877 / 1099511627776) = Fin (5505034817948877 / 1099511627776)"
  using rnd64_eval [where q = "5505034817948877 / 1099511627776" and k = "12" and n = 5505034817948877]
  by (simp add: pow2_eval)

lemma c1_eval_8: "rnd64 (29750967305731401389608635769815 / 39614081257132168796771975168) = Fin (1651510445384663 / 2199023255552)"
  using rnd64_eval [where q = "29750967305731401389608635769815 / 39614081257132168796771975168" and k = "9" and n = 6606041781538652]
  by (simp add: pow2_eval)

lemma c1_eval_9: "rnd64 (9358559190513091 / 2199023255552) = Fin (2339639797628273 / 549755813888)"
  using rnd64_eval_tie [where q = "9358559190513091 / 2199023255552" and k = "12" and n = 4679279595256545]
  by (simp add: pow2_eval)

lemma c1_eval_10: "rnd64 (11010069635897755 / 2199023255552) = Fin (2752517408974439 / 549755813888)"
  using rnd64_eval_tie [where q = "11010069635897755 / 2199023255552" and k = "12" and n = 5505034817948877]
  by (simp add: pow2_eval)

lemmas c1_evals = c1_eval_1 c1_eval_2 c1_eval_3 c1_eval_4 c1_eval_5 c1_eval_6 c1_eval_7 c1_eval_8 c1_eval_9 c1_eval_10

lemma direct_fare_example:
  "calculateDirectDeliveryFare (lit (946 / 1000)) (lit (25 / 10)) ''small'' False
     = \<lparr>totalFare = Fin (5505034817948877 / 1099511627776),
        commission = Fin (1651510445384663 / 2199023255552),
        driverPayout = Fin (2339639797628273 / 549755813888)\<rparr>"
  by (simp add: calculateDirectDeliveryFare_def SIZE_MULTIPLIERS_def or_else_def Let_def
      DIRECT_DELIVERY_BASE_FARE_def PER_KM_RATE_def PER_KG_RATE_def MINIMUM_FARE_def
      COMMISSION_RATE_def Math_max_def jsub_def c1_evals)

text \<open>
  C1 (counterexample). For a direct delivery of \<open>0.946\<close> km and \<open>2.5\<close> kg, size
  \<open>small\<close>, not fragile, the fare is \<open>5006.8\<close>, the commission \<open>751.02\<close> and the payout
  \<open>4255.780000000001\<close>; their sum \<open>commission + driverPayout\<close> is the double
  \<open>5006.800000000001\<close>, which is not the fare.
\<close>

theorem direct_fare_sum_not_exact:
  "\<not> jeq (jadd (commission (calculateDirectDeliveryFare (lit (946 / 1000)) (lit (25 / 10)) ''small'' False))
               (driverPayout (calculateDirectDeliveryFare (lit (946 / 1000)) (lit (25 / 10)) ''small'' False)))
          (totalFare (calculateDirectDeliveryFare (lit (946 / 1000)) (lit (25 / 10)) ''small'' False))"
  by (simp only: direct_fare_example) (simp add: jeq_def c1_evals)

text \<open>
  The commission and the payout of a fare between \<open>1\<close> and \<open>10\<^sup>1\<^sup>5\<close>, with the
  rounding errors of the three operations involved.
\<close>

lemma commission_rate_value: "COMMISSION_RATE = Fin (5404319552844595 / 36028797018963968)"
  by (simp add: COMMISSION_RATE_def lit_evals)

lemma commission_split:
  assumes "1 \<le> F" "F \<le> 10 ^ 15"
  shows "\<exists>C P S. jmul (Fin F) COMMISSION_RATE = Fin C \<and> jsub (Fin F) (Fin C) = Fin P
    \<and> jadd (Fin C) (Fin P) = Fin S \<and> 0 \<le> C \<and> 0 \<le> P
    \<and> \<bar>C + P - F\<bar> \<le> F / 2 ^ 53 \<and> \<bar>S - F\<bar> \<le> F / 2 ^ 51"
proof -
  define k :: rat where "k = 5404319552844595 / 36028797018963968"
  have k: "14 / 100 \<le> k" "k \<le> 16 / 100" by (simp_all add: k_def)
  have small: "pow2 (- 1022) \<le> 1 / 10" by (simp add: pow2_eval)
  have large: "(2::rat) * 10 ^ 15 \<le> pow2 1000" by (simp add: pow2_eval)
  have p53: "(2::rat) ^ 53 = 9007199254740992" by simp
  have p51: "(2::rat) ^ 51 = 2251799813685248" by simp
  define q1 where "q1 = F * k"
  have q1: "14 / 100 * F \<le> q1" "q1 \<le> 16 / 100 * F"
    using assms(1) k by (simp_all add: q1_def mult_left_mono mult.commute)
  have "pow2 (- 1022) \<le> q1" "q1 \<le> pow2 1000" using q1 assms small large by linarith+
  from rnd64_rel [OF this] obtain C where C: "rnd64 q1 = Fin C" "\<bar>C - q1\<bar> \<le> q1 / 2 ^ 53"
    by blast
  have Cb: "13 / 100 * F \<le> C" "C \<le> 17 / 100 * F"
    using C(2) q1 assms(1) unfolding p53 by linarith+
  define q2 where "q2 = F - C"
  have q2: "83 / 100 * F \<le> q2" "q2 \<le> F" using Cb assms(1) by (simp_all add: q2_def)
  have "pow2 (- 1022) \<le> q2" "q2 \<le> pow2 1000" using q2 assms small large by linarith+
  from rnd64_rel [OF this] obtain P where P: "rnd64 q2 = Fin P" "\<bar>P - q2\<bar> \<le> q2 / 2 ^ 53"
    by blast
  have Pq: "\<bar>P - q2\<bar> \<le> F / 2 ^ 53" using P(2) q2(2) unfolding p53 by linarith
  have P0: "0 \<le> P" using P(2) q2(1) assms(1) unfolding p53 by linarith
  define q3 where "q3 = C + P"
  have q3F: "\<bar>q3 - F\<bar> \<le> F / 2 ^ 53" using Pq by (simp add: q3_def q2_def algebra_simps)
  have q3: "9 / 10 * F \<le> q3" "q3 \<le> 2 * F" using q3F assms(1) unfolding p53 by linarith+
  have "pow2 (- 1022) \<le> q3" "q3 \<le> pow2 1000" using q3 assms small large by linarith+
  from rnd64_rel [OF this] obtain S where S: "rnd64 q3 = Fin S" "\<bar>S - q3\<bar> \<le> q3 / 2 ^ 53"
    by blast
  have SF: "\<bar>S - F\<bar> \<le> F / 2 ^ 51" using S(2) q3F q3 assms(1) unfolding p53 p51 by linarith
  have 1: "jmul (Fin F) COMMISSION_RATE = Fin C"
    using C(1) by (simp add: commission_rate_value q1_def k_def)
  have 2: "jsub (Fin F) (Fin C) = Fin P" using P(1) by (simp add: jsub_def q2_def)
  have 3: "jadd (Fin C) (Fin P) = Fin S" using S(1) by (simp add: q3_def)
  have 4: "0 \<le> C" using Cb(1) assms(1) by linarith
  have 5: "\<bar>C + P - F\<bar> \<le> F / 2 ^ 53" using q3F by (simp add: q3_def)
  from 1 2 3 4 P0 5 SF show ?thesis by blast
qed

text \<open>
  C1 (as amended). For every valid direct-delivery input the fare is a finite number, at
  least \<open>MINIMUM_FARE\<close>; the commission is the double product of the fare and
  \<open>0.15\<close>, the payout the double difference of fare and commission. Commission and
  payout add up to the fare only up to rounding: their exact sum differs from the fare
  by at most \<open>fare / 2\<^sup>5\<^sup>3\<close>, and the double \<open>commission + driverPayout\<close> by at most
  \<open>fare / 2\<^sup>5\<^sup>1\<close>.
\<close>

theorem direct_fare_properties:
  assumes "valid_fare_input distance w s"
  shows "\<exists>F C P S.
    calculateDirectDeliveryFare distance w s f
      = \<lparr>totalFare = Fin F, commission = Fin C, driverPayout = Fin P\<rparr>
    \<and> jge (Fin F) MINIMUM_FARE
    \<and> Fin C = jmul (Fin F) COMMISSION_RATE
    \<and> Fin P = jsub (Fin F) (Fin C)
    \<and> jadd (Fin C) (Fin P) = Fin S
    \<and> \<bar>C + P - F\<bar> \<le> F / 2 ^ 53
    \<and> \<bar>S - F\<bar> \<le> F / 2 ^ 51"
proof -
  from additive_formula_bound [OF assms, of 3000 f] obtain T where
    T: "additive_formula DIRECT_DELIVERY_BASE_FARE distance w s f = Fin T"
      "0 \<le> T" "T \<le> 28800027000"
    by (auto simp: DIRECT_DELIVERY_BASE_FARE_def)
  define F where "F = max T 5000"
  have F: "5000 \<le> F" "F \<le> 28800027000" using T(3) by (simp_all add: F_def)
  have max: "Math_max (Fin T) MINIMUM_FARE = Fin F"
    by (simp add: Math_max_def MINIMUM_FARE_def F_def max_def)
  have "1 \<le> F" "F \<le> 10 ^ 15" using F by simp_all
  from commission_split [OF this] obtain C P S where
    CPS: "jmul (Fin F) COMMISSION_RATE = Fin C" "jsub (Fin F) (Fin C) = Fin P"
      "jadd (Fin C) (Fin P) = Fin S"
      "\<bar>C + P - F\<bar> \<le> F / 2 ^ 53" "\<bar>S - F\<bar> \<le> F / 2 ^ 51"
    by blast
  have "calculateDirectDeliveryFare distance w s f
      = \<lparr>totalFare = Fin F, commission = Fin C, driverPayout = Fin P\<rparr>"
    by (simp add: direct_fare_unfold Let_def T(1) max CPS(1,2))
  moreover have "jge (Fin F) MINIMUM_FARE" using F(1) by (simp add: jge_def MINIMUM_FARE_def)
  ultimately show ?thesis using CPS by auto
qed

theorem direct_fare_properties_witness:
  "valid_fare_input (Fin 10) (Fin 5) ''medium''
   \<and> (\<exists>F C P S.
    calculateDirectDeliveryFare (Fin 10) (Fin 5) ''medium'' True
      = \<lparr>totalFare = Fin F, commission = Fin C, driverPayout = Fin P\<rparr>
    \<and> jge (Fin F) MINIMUM_FARE
    \<and> Fin C = jmul (Fin F) COMMISSION_RATE
    \<and> Fin P = jsub (Fin F) (Fin C)
    \<and> jadd (Fin C) (Fin P) = Fin S
    \<and> \<bar>C + P - F\<bar> \<le> F / 2 ^ 53
    \<and> \<bar>S - F\<bar> \<le> F / 2 ^ 51)"
proof -
  have v: "valid_fare_input (Fin 10) (Fin 5) ''medium''" by (simp add: valid_fare_input_def)
  from v direct_fare_properties [OF v, of True] show ?thesis by (rule conjI)
qed

subsection \<open>Collection-point fare\<close>

text \<open>
  C7. For every valid hub-to-hub input the fare is a finite, non-negative multiple of
  \<open>100\<close>: it is \<open>100\<close> times the integer \<open>Math.round\<close> yields, and it lies within
  \<open>50\<close> (and the rounding error of the division, below \<open>10\<^sup>-\<^sup>5\<close>) of the
  discounted amount, the additive formula over \<open>COLLECTION_POINT_BASE_FARE\<close> times
  \<open>COLLECTION_POINT_DISCOUNT\<close>.
\<close>

theorem collection_fare_multiple_of_100:
  assumes "valid_fare_input distance w s"
  shows "\<exists>(n::int) t. 0 \<le> n
    \<and> totalFare (calculateCollectionPointFare distance w s f) = Fin (of_int (100 * n))
    \<and> jmul (additive_formula COLLECTION_POINT_BASE_FARE distance w s f) COLLECTION_POINT_DISCOUNT = Fin t
    \<and> \<bar>of_int (100 * n) - t\<bar> \<le> 50 + 1 / 100000"
proof -
  from additive_formula_bound [OF assms, of 2000 f] obtain T where
    T: "additive_formula COLLECTION_POINT_BASE_FARE distance w s f = Fin T"
      "0 \<le> T" "T \<le> 28800027000"
    by (auto simp: COLLECTION_POINT_BASE_FARE_def)
  have "\<exists>r. jmul (Fin T) (Fin (8106479329266893 / 9007199254740992)) = Fin r
      \<and> 0 \<le> r \<and> r \<le> 2 * (28800027000 * 1)"
    by (rule jmul_bound) (use T in \<open>simp_all add: pow2_eval\<close>)
  then obtain t where t: "jmul (Fin T) COLLECTION_POINT_DISCOUNT = Fin t" "0 \<le> t" "t \<le> 57600054000"
    by (auto simp: discount_value)
  have q: "0 \<le> t / 100" "t / 100 \<le> 576000540" using t(2,3) by simp_all
  have "(1::rat) \<le> 576000540" "(576000540::rat) \<le> pow2 1000" by (simp_all add: pow2_eval)
  from rnd64_fin [OF q this] obtain x where
    x: "rnd64 (t / 100) = Fin x" "0 \<le> x" "x \<le> 576000540 + 576000540 / 2 ^ 53"
      "\<bar>x - t / 100\<bar> \<le> 576000540 / 2 ^ 53"
    by blast
  define n where "n = \<lfloor>x + 1 / 2\<rfloor>"
  have nx: "of_int n \<le> x + 1 / 2" "x + 1 / 2 < of_int n + 1" unfolding n_def by linarith+
  have n0: "0 \<le> n" using x(2) by (simp add: n_def)
  have "(of_int n :: rat) < of_int 600000000" using nx(1) x(3) by simp
  then have nub: "n < 600000000" by (simp only: of_int_less_iff)
  have div: "jdiv (Fin t) (Fin 100) = Fin x" using x(1) by simp
  have rnd: "Math_round (Fin x) = Fin (of_int n)" by (simp add: n_def)
  have "rnd64 (of_int (n * 100)) = Fin (of_int (n * 100))"
    by (rule rnd64_int) (use n0 nub in simp)
  then have mul: "jmul (Fin (of_int n)) (Fin 100) = Fin (of_int (100 * n))"
    by (simp add: mult.commute)
  have total: "totalFare (calculateCollectionPointFare distance w s f) = Fin (of_int (100 * n))"
    by (simp only: collection_fare_unfold T(1) t(1) div rnd mul)
  have "(576000540::rat) / 2 ^ 53 \<le> 1 / 10000000" by simp
  with x(4) have "\<bar>x - t / 100\<bar> \<le> 1 / 10000000" by linarith
  with nx have "\<bar>100 * of_int n - t\<bar> \<le> 50 + 1 / 100000" by linarith
  then have "\<bar>of_int (100 * n) - t\<bar> \<le> 50 + 1 / 100000" by simp
  with n0 total t(1) T(1) show ?thesis by auto
qed

theorem collection_fare_multiple_of_100_witness:
  "valid_fare_input (Fin 10) (Fin 5) ''medium''
   \<and> (\<exists>(n::int) t. 0 \<le> n
    \<and> totalFare (calculateCollectionPointFare (Fin 10) (Fin 5) ''medium'' True) = Fin (of_int (100 * n))
    \<and> jmul (additive_formula COLLECTION_POINT_BASE_FARE (Fin 10) (Fin 5) ''medium'' True)
          COLLECTION_POINT_DISCOUNT = Fin t
    \<and> \<bar>of_int (100 * n) - t\<bar> \<le> 50 + 1 / 100000)"
proof -
  have v: "valid_fare_input (Fin 10) (Fin 5) ''medium''" by (simp add: valid_fare_input_def)
  from v collection_fare_multiple_of_100 [OF v, of True] show ?thesis by (rule conjI)
qed


subsection \<open>The trigger overwrites the submitted fare\<close>





subsection \<open>Bookings with missing or invalid geometry\<close>

text \<open>
  The geometry the trigger does reject, for a booking with package details: a direct
  booking without pickup or dropoff or
  with a falsy latitude, a hub booking whose latitudes match no collection point, and an
  unknown delivery type. It logs an error and writes nothing.
\<close>

lemma invalid_geometry_rejected:
  assumes "packageDetails b = Some package"
    and "deliveryType b = ''direct'' \<and>
             (case (pickup b, dropoff b) of
                (Some p, Some d) \<Rightarrow> falsy (lat p) \<or> falsy (lat d) | _ \<Rightarrow> True)
           \<or> deliveryType b = ''collection_point'' \<and>
             (case (pickup b, dropoff b) of
                (Some p, Some d) \<Rightarrow> find_point (lat p) = None \<or> find_point (lat d) = None
              | _ \<Rightarrow> False)
           \<or> deliveryType b \<notin> {''direct'', ''collection_point''}"
  shows "snd (validateAndFinalizeBooking ml now b) = NoWrite
    \<and> (\<exists>msg. Error msg \<in> set (fst (validateAndFinalizeBooking ml now b)))"
  using assms
  by (auto simp: validateAndFinalizeBooking_def fare_details_def Let_def
      split: option.splits prod.splits)

lemma getDistance_missing_lng:
  "lng start = None \<Longrightarrow> getDistance ml start finish = NaN"
  by (simp add: getDistance_def Let_def)

lemma direct_fare_NaN:
  "calculateDirectDeliveryFare NaN w s f = \<lparr>totalFare = NaN, commission = NaN, driverPayout = NaN\<rparr>"
  by (simp add: calculateDirectDeliveryFare_def Let_def)

text \<open>
  C4 (failing input). A direct booking whose pickup has a latitude but no longitude
  passes the location check, which tests \<open>pickup.lat\<close> and \<open>dropoff.lat\<close> only; the
  distance is NaN, and the trigger writes NaN as fare, commission and payout and logs
  the booking as finalized, with no error and no mismatch warning.
\<close>

theorem missing_lng_stores_NaN_fare:
  "validateAndFinalizeBooking ml now ex_bookingData_no_lng
     = ([Info ''Processing new booking'', Info ''Booking successfully validated and finalized''],
        Write \<lparr>u_estimatedFare = NaN, u_commission = NaN, u_driverPayout = NaN,
               u_distance = NaN, u_lastUpdated = now\<rparr>)"
  by (simp add: validateAndFinalizeBooking_def fare_details_def ex_bookingData_no_lng_def
      ex_bookingData_def falsy_def Let_def getDistance_missing_lng direct_fare_NaN jgt_def)

subsection \<open>Size categories outside the table\<close>

text \<open>The roundings in the direct fare of \<open>10\<close> km and \<open>5\<close> kg, size \<open>small\<close>.\<close>

lemma c10_eval_1: "rnd64 (8000) = Fin (8000)"
  using rnd64_eval [where q = "8000" and k = "12" and n = 8796093022208000]
  by (simp add: pow2_eval)

lemma c10_eval_2: "rnd64 (11000) = Fin (11000)"
  using rnd64_eval [where q = "11000" and k = "13" and n = 6047313952768000]
  by (simp add: pow2_eval)

lemma c10_eval_3: "rnd64 (2500) = Fin (2500)"
  using rnd64_eval [where q = "2500" and k = "11" and n = 5497558138880000]
  by (simp add: pow2_eval)

lemma c10_eval_4: "rnd64 (13500) = Fin (13500)"
  using rnd64_eval [where q = "13500" and k = "13" and n = 7421703487488000]
  by (simp add: pow2_eval)

lemma c10_eval_5: "rnd64 (3 / 20) = Fin (5404319552844595 / 36028797018963968)"
  using rnd64_eval [where q = "3 / 20" and k = "- 3" and n = 5404319552844595]
  by (simp add: pow2_eval)

lemma c10_eval_6: "rnd64 (18239578490850508125 / 9007199254740992) = Fin (2025)"
  using rnd64_eval [where q = "18239578490850508125 / 9007199254740992" and k = "10" and n = 8906044184985600]
  by (simp add: pow2_eval)

lemma c10_eval_7: "rnd64 (11475) = Fin (11475)"
  using rnd64_eval [where q = "11475" and k = "13" and n = 6308447964364800]
  by (simp add: pow2_eval)

lemmas c10_evals = c10_eval_1 c10_eval_2 c10_eval_3 c10_eval_4 c10_eval_5 c10_eval_6 c10_eval_7

text \<open>
  C10 (failing input). The size category \<open>toString\<close> is not in the table, yet the
  multiplier is not \<open>1.0\<close>: the property access finds \<open>Object.prototype.toString\<close>, a
  function, which is truthy and multiplies to NaN. Both fare functions return NaN where
  the size \<open>small\<close> gives a fare of \<open>13500\<close>.
\<close>

theorem inherited_key_fare_is_NaN:
  "calculateDirectDeliveryFare (Fin 10) (Fin 5) ''toString'' False
     = \<lparr>totalFare = NaN, commission = NaN, driverPayout = NaN\<rparr>
   \<and> calculateCollectionPointFare (Fin 10) (Fin 5) ''toString'' False
     = \<lparr>totalFare = NaN, commission = NaN, driverPayout = NaN\<rparr>
   \<and> calculateDirectDeliveryFare (Fin 10) (Fin 5) ''small'' False
     = \<lparr>totalFare = Fin 13500, commission = Fin 2025, driverPayout = Fin 11475\<rparr>"
  by (simp add: calculateDirectDeliveryFare_def calculateCollectionPointFare_def
      SIZE_MULTIPLIERS_def Object_prototype_keys_def or_else_def Let_def
      DIRECT_DELIVERY_BASE_FARE_def PER_KM_RATE_def PER_KG_RATE_def MINIMUM_FARE_def
      COMMISSION_RATE_def Math_max_def jsub_def c10_evals)

text \<open>
  For every other key that is not in the table, the multiplier is \<open>1.0\<close> and both
  functions price the package as \<open>small\<close>.
\<close>

lemma unknown_size_multiplier:
  assumes "s \<notin> set [''small'', ''medium'', ''large'', ''xlarge'']" "s \<notin> set Object_prototype_keys"
  shows "or_else (SIZE_MULTIPLIERS s) (Num (Fin 1)) = or_else (SIZE_MULTIPLIERS ''small'') (Num (Fin 1))"
  using assms by (simp add: SIZE_MULTIPLIERS_def or_else_def)

lemma unknown_size_priced_as_small:
  assumes "s \<notin> set [''small'', ''medium'', ''large'', ''xlarge'']" "s \<notin> set Object_prototype_keys"
  shows "calculateDirectDeliveryFare d w s f = calculateDirectDeliveryFare d w ''small'' f"
    and "calculateCollectionPointFare d w s f = calculateCollectionPointFare d w ''small'' f"
  using unknown_size_multiplier [OF assms]
  by (simp_all add: calculateDirectDeliveryFare_def calculateCollectionPointFare_def)


subsection \<open>Reading a tracking session\<close>

text \<open>
  The page calls \<open>updateDoc\<close>, which its module does not import, and the rules of the
  collection would refuse the update anyway: the call throws for every session.
\<close>

lemma updateDoc_throws: "updateDoc sessions trackingId count accessed = None"
  by (simp add: updateDoc_def module_imports_def)

text \<open>
  Hence no read writes anything, and no read shows a booking: a token that matches no
  session gets the not-found message, every other one the general failure message,
  whether the session has expired or not.
\<close>

lemma initializeTracking_writes_nothing:
  "fst (initializeTracking accessed now sessions bookingDocs trackingId) = sessions"
  by (simp add: initializeTracking_def updateDoc_throws split: option.splits)

lemma initializeTracking_never_displays:
  "snd (initializeTracking accessed now sessions bookingDocs trackingId)
     = (if sessions trackingId = None
        then ShowError ''Tracking session not found or has expired.''
        else ShowError ''Failed to load tracking information. Please try again later.'')"
  by (simp add: initializeTracking_def updateDoc_throws split: option.splits)

text \<open>
  C9 (failing input). A session that expires at \<open>1000\<close>, with access counter \<open>0\<close>, is
  read at \<open>500\<close>, before its expiry, and its booking exists. The read is not served:
  the page shows the general failure message and no booking data, and the session
  document is what it was, with its counter still \<open>0\<close>. The same session read at
  \<open>2000\<close>, after its expiry, ends the same way.
\<close>

theorem unexpired_read_fails_uncounted:
  "initializeTracking 500 500 [''abc'' \<mapsto> ex_session] [''booking123'' \<mapsto> ex_booking] ''abc''
     = ([''abc'' \<mapsto> ex_session],
        ShowError ''Failed to load tracking information. Please try again later.'')
   \<and> accessCount ex_session = Some (Fin 0)
   \<and> expiresAt ex_session = Some 1000
   \<and> initializeTracking 2000 2000 [''abc'' \<mapsto> ex_session] [''booking123'' \<mapsto> ex_booking] ''abc''
     = ([''abc'' \<mapsto> ex_session],
        ShowError ''Failed to load tracking information. Please try again later.'')"
  by (simp add: initializeTracking_def updateDoc_def module_imports_def ex_session_def)
subsection \<open>Location samples and the current-location projection\<close>

lemma update_tracked_ids: "map fst (update_tracked bid f bs) = map fst bs"
  by (induction bs) (simp_all add: update_tracked_def)

lemma foldl_update_tracked_ids:
  "map fst (foldl (\<lambda>bs b. update_tracked (fst b) (g (snd b)) bs) bs0 S) = map fst bs0"
  by (induction S arbitrary: bs0) (simp_all add: update_tracked_ids)

lemma foldl_update_tracked_inv:
  assumes g: "\<And>data doc. P (g data doc)"
    and init: "\<forall>x\<in>set bs0. fst x \<in> A \<longrightarrow> P (snd x)"
  shows "\<forall>x\<in>set (foldl (\<lambda>bs b. update_tracked (fst b) (g (snd b)) bs) bs0 S).
           fst x \<in> A \<union> fst ` set S \<longrightarrow> P (snd x)"
  using init
proof (induction S arbitrary: bs0 A)
  case Nil
  then show ?case by simp
next
  case (Cons s S)
  have "\<forall>x\<in>set (update_tracked (fst s) (g (snd s)) bs0). fst x \<in> insert (fst s) A \<longrightarrow> P (snd x)"
    using Cons.prems g by (auto simp: update_tracked_def)
  from Cons.IH [OF this] show ?case by simp
qed

lemma tracking_update_projection:
  "tracking_currentLocation (tracking (tracking_update ml ev c battery bookingData doc))
     = Some \<lparr>lat = Some (latitude c), lng = Some (longitude c)\<rparr>
   \<and> lastUpdateTime (tracking (tracking_update ml ev c battery bookingData doc))
     = Some (serverTimestamp ev)"
  by (simp add: tracking_update_def Let_def split: option.splits prod.splits)

text \<open>
  C8 (counterexample). A sample captured at \<open>2000\<close> is applied and puts the booking's
  current location at \<open>(1, 32)\<close>; a sample captured earlier, at \<open>1000\<close>, is applied
  next and moves the current location to its own coordinates \<open>(2, 33)\<close>.
\<close>

theorem stale_sample_moves_projection:
  "timestamp ex_sample_old < timestamp ex_sample_new
   \<and> map (\<lambda>b. tracking_currentLocation (tracking (snd b)))
       (tracked_bookings (fst (updateDriverLocationInFirestore ex_mathlib ex_env
          (Some ''driver123'') ex_sample_new (Fin 100) ex_db)))
     = [Some \<lparr>lat = Some (Fin 1), lng = Some (Fin 32)\<rparr>]
   \<and> map (\<lambda>b. tracking_currentLocation (tracking (snd b)))
       (tracked_bookings (fst (updateDriverLocationInFirestore ex_mathlib ex_env
          (Some ''driver123'') ex_sample_old (Fin 100)
          (fst (updateDriverLocationInFirestore ex_mathlib ex_env
             (Some ''driver123'') ex_sample_new (Fin 100) ex_db)))))
     = [Some \<lparr>lat = Some (Fin 2), lng = Some (Fin 33)\<rparr>]"
  by (simp add: updateDriverLocationInFirestore_def assigned_bookings_def update_tracked_def
      tracking_update_def remaining_and_arrival_def ex_db_def ex_tracked_def ex_sample_new_def
      ex_sample_old_def ex_env_def or_else_def Let_def)

text \<open>
  C8 (as amended). Every sample that is processed for a driver with an id and a user
  document overwrites the projection, whatever its capture timestamp: no booking is added
  or removed, every booking of the driver's snapshot (assigned to the driver, status
  \<open>Assigned\<close>, \<open>Picked Up\<close> or \<open>In Transit\<close>) ends with the sample's coordinates as
  \<open>tracking.currentLocation\<close> and the server time as \<open>lastUpdateTime\<close>, and the
  capture timestamp of the sample has no influence on the result.
\<close>

theorem every_sample_overwrites_projection:
  assumes "driver \<noteq> []" "users d driver = Some u"
  shows "map fst (tracked_bookings (fst (updateDriverLocationInFirestore ml ev (Some driver) pos battery d)))
      = map fst (tracked_bookings d)
    \<and> (\<forall>b\<in>set (tracked_bookings (fst (updateDriverLocationInFirestore ml ev (Some driver) pos battery d))).
          fst b \<in> fst ` set (assigned_bookings d driver) \<longrightarrow>
          tracking_currentLocation (tracking (snd b))
            = Some \<lparr>lat = Some (latitude (coords pos)), lng = Some (longitude (coords pos))\<rparr>
          \<and> lastUpdateTime (tracking (snd b)) = Some (serverTimestamp ev))
    \<and> (\<forall>t. updateDriverLocationInFirestore ml ev (Some driver) (pos\<lparr>timestamp := t\<rparr>) battery d
          = updateDriverLocationInFirestore ml ev (Some driver) pos battery d)"
proof -
  let ?g = "tracking_update ml ev (coords pos) battery"
  let ?P = "\<lambda>doc. tracking_currentLocation (tracking doc)
            = Some \<lparr>lat = Some (latitude (coords pos)), lng = Some (longitude (coords pos))\<rparr>
          \<and> lastUpdateTime (tracking doc) = Some (serverTimestamp ev)"
  have bs: "tracked_bookings (fst (updateDriverLocationInFirestore ml ev (Some driver) pos battery d))
      = foldl (\<lambda>bs b. update_tracked (fst b) (?g (snd b)) bs) (tracked_bookings d)
          (assigned_bookings d driver)"
    using assms by (simp add: updateDriverLocationInFirestore_def Let_def assigned_bookings_def)
  have 1: "map fst (tracked_bookings (fst (updateDriverLocationInFirestore ml ev (Some driver) pos battery d)))
      = map fst (tracked_bookings d)"
    by (simp only: bs foldl_update_tracked_ids)
  have g: "\<And>data doc. ?P (?g data doc)" by (rule tracking_update_projection)
  have "\<forall>x\<in>set (tracked_bookings d). fst x \<in> {} \<longrightarrow> ?P (snd x)" by simp
  from foldl_update_tracked_inv [of ?P ?g, OF g this, of "assigned_bookings d driver"]
  have 2: "\<forall>b\<in>set (tracked_bookings (fst (updateDriverLocationInFirestore ml ev (Some driver) pos battery d))).
          fst b \<in> fst ` set (assigned_bookings d driver) \<longrightarrow> ?P (snd b)"
    by (simp only: bs Un_empty_left)
  have 3: "\<forall>t. updateDriverLocationInFirestore ml ev (Some driver) (pos\<lparr>timestamp := t\<rparr>) battery d
          = updateDriverLocationInFirestore ml ev (Some driver) pos battery d"
    by (simp add: updateDriverLocationInFirestore_def)
  from 1 2 3 show ?thesis by blast
qed


theorem every_sample_overwrites_projection_witness:
  "''driver123'' \<noteq> []
   \<and> users ex_db ''driver123'' = Some \<lparr>lastKnownLocation = None,
         isLocationSharingActive = False, lastLocationUpdate = None\<rparr>
   \<and> tracked_bookings (fst (updateDriverLocationInFirestore ex_mathlib ex_env
          (Some ''driver123'') ex_sample_old (Fin 100) ex_db)) \<noteq> []
   \<and> list_all (\<lambda>b. tracking_currentLocation (tracking (snd b))
                     = Some \<lparr>lat = Some (Fin 2), lng = Some (Fin 33)\<rparr>)
       (tracked_bookings (fst (updateDriverLocationInFirestore ex_mathlib ex_env
          (Some ''driver123'') ex_sample_old (Fin 100) ex_db)))"
proof -
  let ?d = "fst (updateDriverLocationInFirestore ex_mathlib ex_env
          (Some ''driver123'') ex_sample_old (Fin 100) ex_db)"
  have a: "''driver123'' \<noteq> []" by simp
  have b: "users ex_db ''driver123'' = Some \<lparr>lastKnownLocation = None,
         isLocationSharingActive = False, lastLocationUpdate = None\<rparr>"
    by (simp add: ex_db_def)
  note t = every_sample_overwrites_projection [OF a b, of ex_mathlib ex_env ex_sample_old "Fin 100"]
  have ids: "map fst (tracked_bookings ?d) = [''booking123'']"
    using t by (simp add: ex_db_def)
  have asg: "fst ` set (assigned_bookings ex_db ''driver123'') = {''booking123''}"
    by (simp add: assigned_bookings_def ex_db_def ex_tracked_def)
  have "set (map fst (tracked_bookings ?d)) = {''booking123''}" by (simp only: ids) simp
  then have img: "fst ` set (tracked_bookings ?d) = {''booking123''}" by (simp only: set_map)
  have "\<forall>x\<in>set (tracked_bookings ?d). tracking_currentLocation (tracking (snd x))
      = Some \<lparr>lat = Some (latitude (coords ex_sample_old)), lng = Some (longitude (coords ex_sample_old))\<rparr>"
  proof
    fix x
    assume x: "x \<in> set (tracked_bookings ?d)"
    then have "fst x \<in> fst ` set (tracked_bookings ?d)" by (rule imageI)
    then have "fst x \<in> fst ` set (assigned_bookings ex_db ''driver123'')"
      by (simp only: img asg)
    with t [THEN conjunct2, THEN conjunct1, THEN bspec, OF x]
    show "tracking_currentLocation (tracking (snd x))
      = Some \<lparr>lat = Some (latitude (coords ex_sample_old)), lng = Some (longitude (coords ex_sample_old))\<rparr>"
      by (elim impE conjE)
  qed
  then have all: "list_all (\<lambda>b. tracking_currentLocation (tracking (snd b))
                     = Some \<lparr>lat = Some (Fin 2), lng = Some (Fin 33)\<rparr>) (tracked_bookings ?d)"
    by (simp add: list_all_iff ex_sample_old_def)
  have ne: "tracked_bookings ?d \<noteq> []" using ids by auto
  from a b ne all show ?thesis by (intro conjI)
qed

subsection \<open>The driver that is selected\<close>








lemma ex_GeoPoint: "GeoPoint (parseFloat (lat ex_point)) (parseFloat (lng ex_point))
    = Some \<lparr>latitude = Fin 0, longitude = Fin 32\<rparr>"
  by (simp add: GeoPoint_def parseFloat_def ex_point_def jge_def)

lemma ex_doc_with_id:
  "doc_with_id (''driverA'', ex_driverA) = (''driverA'', ex_driverA)"
  "doc_with_id (''driverB'', ex_driverB) = (''driverB'', ex_driverB)"
  "doc_with_id (''driver123'', ex_driver s) = (''driver123'', ex_driver s)"
  "doc_with_id (''drv_1'', ex_driver s) = (''driver123'', ex_driver s)"
  by (simp_all add: doc_with_id_def ex_driverA_def ex_driverB_def ex_driver_def)





text \<open>
  The id under which a driver is committed is the \<open>id\<close> of the object built from its
  document. Here the only available driver is the document \<open>drv_1\<close>, whose stored \<open>id\<close>
  field says \<open>driver123\<close>: the booking is written with \<open>driver123\<close>, the update of
  \<open>drivers/driver123\<close> finds no document and throws, and \<open>drv_1\<close> is still available.
\<close>

lemma stored_id_overrides_document_id:
  "assignDriverToBooking ex_scorers ex_store_stored_id ''booking123'' ex_booking 7
     = (\<lparr>drivers = [(''drv_1'', ex_driver ''available'')],
         bookings = [''booking123'' \<mapsto> ex_booking\<lparr>driverId := Some ''driver123'',
                        driverName := Some ''John Doe'',
                        bstatus := ''Driver Assigned'',
                        assignmentTimestamp := Some 7\<rparr>,
                     ''booking456'' \<mapsto> ex_booking]\<rparr>,
        \<lparr>h_bookingId = ''booking123'', h_bookingData = ex_booking, h_now = 7, h_pc = Finished,
         h_logs = [Error ''Error assigning driver to booking'']\<rparr>)"
proof -
  have pend: "bstatus ex_booking = ''Pending Driver Assignment''" by (simp add: ex_booking_def)
  have av: "available_drivers ex_store_stored_id = [(''drv_1'', ex_driver ''available'')]"
    by (simp add: available_drivers_def ex_store_stored_id_def ex_driver_def)
  have pl: "pickupLocation ex_booking = Some ex_point" by (simp add: ex_booking_def)
  have cds: "calculateDriverScores ex_scorers [(''driver123'', ex_driver ''available'')] ex_booking
     = Some [score_driver ex_scorers \<lparr>latitude = Fin 0, longitude = Fin 32\<rparr> ex_booking
               (''driver123'', ex_driver ''available'')]"
    using pl by (simp add: calculateDriverScores_def ex_GeoPoint array_sort_def)
  show ?thesis
    by (simp add: assignDriverToBooking_def handler_step_def new_handler_def pend av
        ex_doc_with_id cds Let_def)
      (simp add: ex_store_stored_id_def update_booking_def update_driver_def
        score_driver_fields ex_driver_def fun_upd_twist)
qed



subsection \<open>Concurrent and serial assignment\<close>

lemma ex_single_scores:
  "calculateDriverScores sc [d] ex_booking
     = Some [score_driver sc \<lparr>latitude = Fin 0, longitude = Fin 32\<rparr> ex_booking d]"
proof -
  have "pickupLocation ex_booking = Some ex_point" by (simp add: ex_booking_def)
  then show ?thesis by (simp add: calculateDriverScores_def ex_GeoPoint array_sort_def)
qed




text \<open>
  Without agreement between the stored \<open>id\<close> field and the document id, even
  invocations that run one after the other select the same driver. With the only
  available driver the document \<open>drv_1\<close> that stores the id \<open>driver123\<close>, the first
  invocation leaves the driver available, and the second, started after it has ended,
  selects the driver again: both bookings end \<open>Driver Assigned\<close> with \<open>driver123\<close>.
\<close>

lemma mismatched_id_selected_again:
  "assignDriverToBooking ex_scorers
     (fst (assignDriverToBooking ex_scorers ex_store_stored_id ''booking123'' ex_booking 7))
     ''booking456'' ex_booking 8
   = (\<lparr>drivers = [(''drv_1'', ex_driver ''available'')],
       bookings = [''booking123'' \<mapsto> ex_booking\<lparr>driverId := Some ''driver123'',
                      driverName := Some ''John Doe'',
                      bstatus := ''Driver Assigned'',
                      assignmentTimestamp := Some 7\<rparr>,
                   ''booking456'' \<mapsto> ex_booking\<lparr>driverId := Some ''driver123'',
                      driverName := Some ''John Doe'',
                      bstatus := ''Driver Assigned'',
                      assignmentTimestamp := Some 8\<rparr>]\<rparr>,
      \<lparr>h_bookingId = ''booking456'', h_bookingData = ex_booking, h_now = 8, h_pc = Finished,
       h_logs = [Error ''Error assigning driver to booking'']\<rparr>)"
proof -
  let ?st1 = "\<lparr>drivers = [(''drv_1'', ex_driver ''available'')],
         bookings = [''booking123'' \<mapsto> ex_booking\<lparr>driverId := Some ''driver123'',
                        driverName := Some ''John Doe'',
                        bstatus := ''Driver Assigned'',
                        assignmentTimestamp := Some 7\<rparr>,
                     ''booking456'' \<mapsto> ex_booking]\<rparr>"
  have pend: "bstatus ex_booking = ''Pending Driver Assignment''" by (simp add: ex_booking_def)
  have av: "available_drivers ?st1 = [(''drv_1'', ex_driver ''available'')]"
    by (simp add: available_drivers_def ex_driver_def)
  show ?thesis
    apply (simp only: stored_id_overrides_document_id fst_conv)
    apply (simp add: assignDriverToBooking_def handler_step_def new_handler_def pend av
        ex_doc_with_id ex_single_scores Let_def)
    apply (simp add: update_booking_def update_driver_def score_driver_fields ex_driver_def)
    done
qed



end
